theory Spec2Isabelle
  imports Complex_Main
begin

section \<open>JavaScript helpers used by the declaration generator\<close>

text \<open>
  Strings are lists of code units; \<open>Array.prototype.join\<close> puts the separator between
  consecutive elements and yields the empty string for the empty array.
\<close>

fun join :: "string \<Rightarrow> string list \<Rightarrow> string" where
  "join sep [] = []"
| "join sep [x] = x"
| "join sep (x # y # ys) = x @ sep @ join sep (y # ys)"

text \<open>
  \<open>Array.prototype.indexOf\<close>: the index of the first element strictly equal to the
  argument, \<open>-1\<close> when there is none. \<open>indexOfFrom k\<close> is the loop from position \<open>k\<close>.
\<close>

fun indexOfFrom :: "int \<Rightarrow> 'a list \<Rightarrow> 'a \<Rightarrow> int" where
  "indexOfFrom k [] x = - 1"
| "indexOfFrom k (y # ys) x = (if y = x then k else indexOfFrom (k + 1) ys x)"

definition indexOf :: "'a list \<Rightarrow> 'a \<Rightarrow> int" where
  "indexOf xs x = indexOfFrom 0 xs x"

text \<open>
  \<open>Array.prototype.filter\<close> with the two-argument callback \<open>(element, index)\<close>.
\<close>

fun filterFrom :: "int \<Rightarrow> ('a \<Rightarrow> int \<Rightarrow> bool) \<Rightarrow> 'a list \<Rightarrow> 'a list" where
  "filterFrom k p [] = []"
| "filterFrom k p (x # xs) = (if p x k then x # filterFrom (k + 1) p xs else filterFrom (k + 1) p xs)"

definition filter_indexed :: "('a \<Rightarrow> int \<Rightarrow> bool) \<Rightarrow> 'a list \<Rightarrow> 'a list" where
  "filter_indexed p xs = filterFrom 0 p xs"

text \<open>\<open>Array.prototype.includes\<close> on strings.\<close>

definition array_includes :: "'a list \<Rightarrow> 'a \<Rightarrow> bool" where
  "array_includes xs x = (x \<in> set xs)"

section \<open>JSON values and \<open>JSON.stringify\<close>\<close>

text \<open>
  A JSON value, over the type of its numbers: the integers for the numbers of an
  artifact, JavaScript's numbers for what \<open>JSON.parse\<close> reads from the cache file and
  from the answers of the release API. An object is the list of its members in
  property order, with distinct keys.
\<close>

datatype 'n json =
    JNull
  | JBool bool
  | JNumber 'n
  | JString string
  | JArray "'n json list"
  | JObject "(string \<times> 'n json) list"

text \<open>Decimal digits of a natural number, as \<open>Number.prototype.toString\<close> prints an integer.\<close>

fun digits_of :: "nat \<Rightarrow> string" where
  "digits_of n =
     (if n < 10 then [char_of (48 + n)]
      else digits_of (n div 10) @ [char_of (48 + n mod 10)])"

declare digits_of.simps [simp del]

definition number_toString :: "int \<Rightarrow> string" where
  "number_toString i = (if i < 0 then ''-'' @ digits_of (nat (- i)) else digits_of (nat i))"

definition hex_digit :: "nat \<Rightarrow> char" where
  "hex_digit n = (if n < 10 then char_of (48 + n) else char_of (87 + n))"

text \<open>
  \<open>QuoteJSONString\<close>: the quotation mark and the reverse solidus are escaped with a
  reverse solidus, the control characters below U+0020 with their short escape or
  with \<open>\u00xx\<close>; every other code unit is copied.
\<close>

definition escape_char :: "char \<Rightarrow> string" where
  "escape_char c =
     (let n = (of_char c :: nat) in
      if n = 34 then [CHR 0x5C, CHR 0x22]
      else if n = 92 then [CHR 0x5C, CHR 0x5C]
      else if n = 8 then [CHR 0x5C, CHR ''b'']
      else if n = 9 then [CHR 0x5C, CHR ''t'']
      else if n = 10 then [CHR 0x5C, CHR ''n'']
      else if n = 12 then [CHR 0x5C, CHR ''f'']
      else if n = 13 then [CHR 0x5C, CHR ''r'']
      else if n < 32 then [CHR 0x5C, CHR ''u'', CHR ''0'', CHR ''0'', hex_digit (n div 16), hex_digit (n mod 16)]
      else [c])"

definition quote :: "string \<Rightarrow> string" where
  "quote s = [CHR 0x22] @ concat (map escape_char s) @ [CHR 0x22]"

text \<open>
  \<open>SerializeJSONProperty\<close> with the gap \<open>gap\<close> and the current indentation \<open>indent\<close>:
  with the empty gap the output is compact, otherwise every element of a non-empty
  array or object stands on a line of its own.
\<close>

fun serialize :: "string \<Rightarrow> string \<Rightarrow> int json \<Rightarrow> string" where
  "serialize gap indent JNull = ''null''"
| "serialize gap indent (JBool b) = (if b then ''true'' else ''false'')"
| "serialize gap indent (JNumber i) = number_toString i"
| "serialize gap indent (JString s) = quote s"
| "serialize gap indent (JArray xs) =
     (let stepback = indent; indent' = indent @ gap;
          partial = map (serialize gap indent') xs
      in if partial = [] then ''[]''
         else if gap = [] then ''['' @ join '','' partial @ '']''
         else ''['' @ [CHR 0x0A] @ indent' @ join ('','' @ [CHR 0x0A] @ indent') partial
              @ [CHR 0x0A] @ stepback @ '']'')"
| "serialize gap indent (JObject ms) =
     (let stepback = indent; indent' = indent @ gap;
          partial = map (\<lambda>(k, v). quote k @ '':'' @ (if gap = [] then [] else '' '')
                                   @ serialize gap indent' v) ms
      in if partial = [] then ''{}''
         else if gap = [] then ''{'' @ join '','' partial @ ''}''
         else ''{'' @ [CHR 0x0A] @ indent' @ join ('','' @ [CHR 0x0A] @ indent') partial
              @ [CHR 0x0A] @ stepback @ ''}'')"

text \<open>\<open>JSON.stringify(value)\<close> and \<open>JSON.stringify(value, undefined, 2)\<close>.\<close>

definition JSON_stringify :: "int json \<Rightarrow> string" where
  "JSON_stringify v = serialize [] [] v"

definition JSON_stringify_2 :: "int json \<Rightarrow> string" where
  "JSON_stringify_2 v = serialize ''  '' [] v"

section \<open>Fully qualified names\<close>

text \<open>
  Modelled from the spec: \<open>getFullyQualifiedName\<close> and \<open>parseFullyQualifiedName\<close> live in
  \<open>hardhat/utils/contract-names\<close>, outside the files at hand. The qualified name is
  \<open>sourceName + ":" + contractName\<close>; the parse is its inverse and splits at the last
  colon, a contract name being an identifier without one.
\<close>

definition getFullyQualifiedName :: "string \<Rightarrow> string \<Rightarrow> string" where
  "getFullyQualifiedName sn cn = sn @ '':'' @ cn"

record ParsedName =
  parsed_sourceName :: string
  parsed_contractName :: string

definition parseFullyQualifiedName :: "string \<Rightarrow> ParsedName" where
  "parseFullyQualifiedName fqn =
     (let r = rev fqn
      in \<lparr> parsed_sourceName = rev (drop 1 (dropWhile (\<lambda>c. c \<noteq> CHR '':'') r)),
            parsed_contractName = rev (takeWhile (\<lambda>c. c \<noteq> CHR '':'') r) \<rparr>)"

section \<open>Artifacts\<close>

text \<open>
  An ABI entry is a JSON object, kept as the list of its members in property order
  (keys are distinct, as in every JavaScript object); property access is the lookup
  of the key, \<open>None\<close> standing for \<open>undefined\<close>. The other fields of an artifact are
  those of hardhat's \<open>Artifact\<close> interface, in the order \<open>JSON.stringify\<close> meets them.
\<close>

type_synonym AbiItem = "(string \<times> int json) list"

record Artifact =
  format :: string
  contractName :: string
  sourceName :: string
  abi :: "AbiItem list"
  bytecode :: string
  deployedBytecode :: string
  linkReferences :: "int json"
  deployedLinkReferences :: "int json"

definition property :: "AbiItem \<Rightarrow> string \<Rightarrow> int json option" where
  "property item k = map_of item k"

definition artifact_json :: "Artifact \<Rightarrow> int json" where
  "artifact_json a =
     JObject
       [(''_format'', JString (format a)),
        (''contractName'', JString (contractName a)),
        (''sourceName'', JString (sourceName a)),
        (''abi'', JArray (map JObject (abi a))),
        (''bytecode'', JString (bytecode a)),
        (''deployedBytecode'', JString (deployedBytecode a)),
        (''linkReferences'', linkReferences a),
        (''deployedLinkReferences'', deployedLinkReferences a)]"

text \<open>
  The constructor inputs have the type the source declares for them,
  \<open>Array<{ internalType: string; name: string; type: string }>\<close>; only \<open>name\<close> and \<open>type\<close>
  are ever read. \<open>as_inputs\<close> reads a JSON value at that type and is \<open>None\<close> when the
  value does not have it: the generator is modelled on artifacts of the declared type.
\<close>

record AbiInput =
  input_name :: string
  input_type :: string

fun as_input :: "int json \<Rightarrow> AbiInput option" where
  "as_input (JObject ms) =
     (case (map_of ms ''name'', map_of ms ''type'') of
        (Some (JString n), Some (JString t)) \<Rightarrow> Some \<lparr> input_name = n, input_type = t \<rparr>
      | _ \<Rightarrow> None)"
| "as_input _ = None"

fun as_inputs :: "int json option \<Rightarrow> AbiInput list option" where
  "as_inputs (Some (JArray xs)) = those (map as_input xs)"
| "as_inputs _ = None"

section \<open>The declaration generator\<close>

definition AUTOGENERATED_FILE_PREFACE :: string where
  \<open>AUTOGENERATED_FILE_PREFACE =
     ''// This file was autogenerated by hardhat-viem, do not edit it.\<newline>'' @
     ''// prettier-ignore\<newline>'' @
     ''// tslint:disable\<newline>'' @
     ''// eslint-disable''\<close>

text \<open>The name collisions: the names at a position other than their first occurrence.\<close>

definition dupContractNames :: "string list \<Rightarrow> string list" where
  "dupContractNames contractNames =
     filter_indexed (\<lambda>nm i. indexOf contractNames nm \<noteq> i) contractNames"

definition contractNamesOf :: "string list \<Rightarrow> string list" where
  "contractNamesOf fqns = map (\<lambda>fqn. parsed_contractName (parseFullyQualifiedName fqn)) fqns"

definition neverEntries :: "string list \<Rightarrow> string list" where
  "neverEntries contractNames = map (\<lambda>nm. nm @ '': never;'') (dupContractNames contractNames)"

definition generateArtifactsDefinition :: "string list \<Rightarrow> string" where
  \<open>generateArtifactsDefinition contractNames =
     AUTOGENERATED_FILE_PREFACE @ ''\<newline>'' @
     ''\<newline>'' @
     ''import "hardhat/types/artifacts";\<newline>'' @
     ''\<newline>'' @
     ''declare module "hardhat/types/artifacts" {\<newline>'' @
     ''  interface ArtifactsMap {\<newline>'' @
     ''    '' @ join ''\<newline>    '' (neverEntries contractNames) @ ''\<newline>'' @
     ''  }\<newline>'' @
     ''}\<newline>''\<close>

definition validNames :: "Artifact \<Rightarrow> bool \<Rightarrow> string list" where
  "validNames artifact isDup =
     (let fqn = getFullyQualifiedName (sourceName artifact) (contractName artifact)
      in if isDup then [fqn] else [contractName artifact, fqn])"

definition contractTypeName :: "Artifact \<Rightarrow> string" where
  "contractTypeName artifact = contractName artifact @ ''$Type''"

definition constructorAbi :: "Artifact \<Rightarrow> AbiItem option" where
  "constructorAbi artifact =
     List.find (\<lambda>item. property item ''type'' = Some (JString ''constructor'')) (abi artifact)"

definition inputs :: "Artifact \<Rightarrow> AbiInput list option" where
  "inputs artifact =
     (case constructorAbi artifact of
        Some c \<Rightarrow> as_inputs (property c ''inputs'')
      | None \<Rightarrow> Some [])"

definition parameterType :: "AbiInput \<Rightarrow> string" where
  "parameterType i =
     ''AbiParameterToPrimitiveType<'' @
     JSON_stringify (JObject [(''name'', JString (input_name i)), (''type'', JString (input_type i))]) @
     ''>''"

definition constructorArgs :: "AbiInput list \<Rightarrow> string" where
  "constructorArgs ins =
     (if length ins > 0
      then ''constructorArgs: ['' @ join '', '' (map parameterType ins) @ '']''
      else ''constructorArgs?: []'')"

definition deployContractDeclaration :: "string \<Rightarrow> string \<Rightarrow> string \<Rightarrow> string" where
  \<open>deployContractDeclaration cArgs typeName nm =
     ''export function deployContract(\<newline>'' @
     ''    contractName: "'' @ nm @ ''",\<newline>'' @
     ''    '' @ cArgs @ '',\<newline>'' @
     ''    config?: DeployContractConfig\<newline>'' @
     ''  ): Promise<GetContractReturnType<'' @ typeName @ ''["abi"]>>;''\<close>

definition getContractAtDeclaration :: "string \<Rightarrow> string \<Rightarrow> string" where
  \<open>getContractAtDeclaration typeName nm =
     ''export function getContractAt(\<newline>'' @
     ''    contractName: "'' @ nm @ ''",\<newline>'' @
     ''    address: Address,\<newline>'' @
     ''    config?: GetContractAtConfig\<newline>'' @
     ''  ): Promise<GetContractReturnType<'' @ typeName @ ''["abi"]>>;''\<close>

definition declarationText :: "Artifact \<Rightarrow> AbiInput list \<Rightarrow> string list \<Rightarrow> string" where
  \<open>declarationText artifact ins names =
     AUTOGENERATED_FILE_PREFACE @ ''\<newline>'' @
     ''\<newline>'' @
     ''import type { Address } from "viem";\<newline>'' @
     (if length ins > 0
      then ''import type { AbiParameterToPrimitiveType, GetContractReturnType } from "@nomicfoundation/hardhat-viem/types";''
      else ''import type { GetContractReturnType } from "@nomicfoundation/hardhat-viem/types";'') @
     ''\<newline>'' @
     ''import "@nomicfoundation/hardhat-viem/types";\<newline>'' @
     ''\<newline>'' @
     ''export interface '' @ contractTypeName artifact @ '' '' @ JSON_stringify_2 (artifact_json artifact) @ ''\<newline>'' @
     ''\<newline>'' @
     ''declare module "@nomicfoundation/hardhat-viem/types" {\<newline>'' @
     ''  '' @ join ''\<newline>  ''
              (map (deployContractDeclaration (constructorArgs ins) (contractTypeName artifact)) names) @
     ''\<newline>'' @
     ''\<newline>'' @
     ''  '' @ join ''\<newline>  '' (map (getContractAtDeclaration (contractTypeName artifact)) names) @
     ''\<newline>'' @
     ''}\<newline>''\<close>

text \<open>
  \<open>generateContractDeclaration\<close>: \<open>None\<close> when the constructor entry's \<open>inputs\<close> are not of
  the declared type; otherwise the text of the declaration file.
\<close>

definition generateContractDeclaration :: "Artifact \<Rightarrow> bool \<Rightarrow> string option" where
  "generateContractDeclaration artifact isDup =
     (case inputs artifact of
        None \<Rightarrow> None
      | Some ins \<Rightarrow> Some (declarationText artifact ins (validNames artifact isDup)))"

section \<open>The files of the artifacts directory\<close>

text \<open>
  \<open>String.prototype.split\<close> at a one-character separator and \<open>String.prototype.endsWith\<close>.
\<close>

fun split :: "char \<Rightarrow> string \<Rightarrow> string list" where
  "split c [] = [[]]"
| "split c (x # xs) =
     (if x = c then [] # split c xs
      else (case split c xs of w # ws \<Rightarrow> (x # w) # ws | [] \<Rightarrow> [[x]]))"

definition endsWith :: "string \<Rightarrow> string \<Rightarrow> bool" where
  "endsWith s x = (length x \<le> length s \<and> drop (length s - length x) s = x)"

text \<open>
  Node's \<open>path\<close> functions on normalised POSIX paths (no trailing slash, no \<open>.\<close> or \<open>..\<close>
  segment): \<open>join\<close> puts a slash between its arguments, \<open>dirname\<close> cuts the last segment
  off, \<open>relative\<close> drops the common leading segments and climbs out of what is left
  of the first path.
\<close>

definition path_join :: "string \<Rightarrow> string \<Rightarrow> string" where
  "path_join a b = a @ ''/'' @ b"

definition dirname :: "string \<Rightarrow> string" where
  "dirname p =
     (if CHR ''/'' \<notin> set p then ''.''
      else (let d = rev (drop 1 (dropWhile (\<lambda>c. c \<noteq> CHR ''/'') (rev p)))
            in if d = [] then ''/'' else d))"

fun dropCommon :: "string list \<Rightarrow> string list \<Rightarrow> string list \<times> string list" where
  "dropCommon (x # xs) (y # ys) = (if x = y then dropCommon xs ys else (x # xs, y # ys))"
| "dropCommon xs ys = (xs, ys)"

definition relative :: "string \<Rightarrow> string \<Rightarrow> string" where
  "relative from to =
     (case dropCommon (split CHR ''/'' from) (split CHR ''/'' to) of
        (up, down) \<Rightarrow> join ''/'' (replicate (length up) ''..'' @ down))"

text \<open>
  The file system is the list of the paths of its files. \<open>rm\<close> with \<open>force\<close> and
  \<open>recursive\<close> deletes the path and everything below it and accepts a path that does
  not exist.

  Modelled from the spec: \<open>getAllFilesMatching\<close> lives in \<open>hardhat/internal/util/fs-utils\<close>,
  outside the files at hand; it scans the directory recursively and returns the paths
  of the files the predicate accepts.
\<close>

type_synonym files = "string list"

definition isBelow :: "string \<Rightarrow> string \<Rightarrow> bool" where
  "isBelow dir f = (take (length dir + 1) f = dir @ ''/'' )"

definition getAllFilesMatching :: "string \<Rightarrow> (string \<Rightarrow> bool) \<Rightarrow> files \<Rightarrow> string list" where
  "getAllFilesMatching dir matches fs = filter (\<lambda>f. isBelow dir f \<and> matches f) fs"

definition rm :: "string \<Rightarrow> files \<Rightarrow> files" where
  "rm target fs = filter (\<lambda>f. f \<noteq> target \<and> \<not> isBelow target f) fs"

text \<open>
  The override of \<open>TASK_COMPILE_SOLIDITY_EMIT_ARTIFACTS\<close>: the declaration generated for
  a contract of a source file, and the paths of the files written for the source files
  of one compilation.
\<close>

definition emittedDeclaration ::
  "(string \<Rightarrow> Artifact) \<Rightarrow> string list \<Rightarrow> string \<Rightarrow> string \<Rightarrow> string option" where
  "emittedDeclaration readArtifact fqns sn cn =
     (let contractNames = contractNamesOf fqns;
          fqn = getFullyQualifiedName sn cn;
          artifact = readArtifact fqn;
          isDup = array_includes (dupContractNames contractNames) cn
      in generateContractDeclaration artifact isDup)"

definition emittedPaths :: "string \<Rightarrow> (string \<times> string list) list \<Rightarrow> string list" where
  "emittedPaths artifactsPath artifactsEmittedPerFile =
     concat (map (\<lambda>(sn, artifactsEmitted).
                    let srcDir = path_join artifactsPath sn
                    in map (\<lambda>cn. path_join srcDir (cn @ ''.d.ts'')) artifactsEmitted
                       @ [path_join srcDir ''artifacts.d.ts''])
                 artifactsEmittedPerFile)"

definition emitArtifacts :: "string \<Rightarrow> (string \<times> string list) list \<Rightarrow> files \<Rightarrow> files" where
  "emitArtifacts artifactsPath artifactsEmittedPerFile fs =
     fs @ filter (\<lambda>f. f \<notin> set fs) (remdups (emittedPaths artifactsPath artifactsEmittedPerFile))"

text \<open>
  The override of \<open>TASK_COMPILE_REMOVE_OBSOLETE_ARTIFACTS\<close>, run on the files the host's
  own clean-up has left.
\<close>

definition existingSourceFiles :: "string list \<Rightarrow> string set" where
  "existingSourceFiles fqns = set (map (\<lambda>fqn. parsed_sourceName (parseFullyQualifiedName fqn)) fqns)"

definition pruneStep :: "string \<Rightarrow> string set \<Rightarrow> string \<Rightarrow> files \<Rightarrow> files" where
  "pruneStep artifactsPath existing fileDTs fs =
     (let dir = dirname fileDTs;
          sn = relative artifactsPath dir
      in if sn \<notin> existing then rm dir fs else fs)"

definition removeObsoleteArtifacts :: "string \<Rightarrow> string list \<Rightarrow> files \<Rightarrow> files" where
  "removeObsoleteArtifacts artifactsPath fqns fs =
     (let allFilesDTs = getAllFilesMatching artifactsPath (\<lambda>f. endsWith f ''file.d.ts'') fs
      in fold (pruneStep artifactsPath (existingSourceFiles fqns)) allFilesDTs fs)"


section \<open>The version notifier\<close>

text \<open>
  A JavaScript number as \<open>JSON.parse\<close> can read one: a finite value (every double is
  a rational) or an infinity, which is what a literal beyond the range of the
  doubles, such as \<open>1e400\<close>, reads as. \<open>NaN\<close> is never read from JSON.
\<close>

datatype js_number = Finite rat | PlusInfinity | MinusInfinity

type_synonym js_value = "js_number json"

text \<open>
  Property access on a value that is neither \<open>null\<close> nor \<open>undefined\<close>: the member of an
  object, \<open>None\<close> (for \<open>undefined\<close>) when the object has no such member or the value is
  an array, a string, a number or a boolean. The properties asked for below are none
  that a string or an array has of its own.
\<close>

definition member :: "'n json \<Rightarrow> string \<Rightarrow> 'n json option" where
  "member v k = (case v of JObject ms \<Rightarrow> map_of ms k | _ \<Rightarrow> None)"

text \<open>
  A function of the source either returns a value or throws a \<open>TypeError\<close> that nothing
  catches.
\<close>

datatype 'a result = Value 'a | TypeError

datatype completion = Returned | Threw

text \<open>
  An element of the release list, at the type the source casts the list to
  (\<open>Release[]\<close>), with the members the code reads of it. The publication time is kept
  as the number \<open>new Date(published_at).getTime()\<close>, the only use the code makes of it.
\<close>

record Release =
  tag_name :: string
  draft :: bool
  prerelease :: bool
  published_at :: int

datatype lastCheck_value = LastCheckZero | LastCheckString string

text \<open>
  The cache in memory. The pinned release is the JSON value the API answered, as it
  is.
\<close>

record VersionNotifierCache =
  lastCheck :: lastCheck_value
  v3TimesShown :: js_number
  v3Release :: "js_value option"
  v3ReleaseMessage :: "string option"

text \<open>
  The libraries the notifier calls are parameters: \<open>semver.valid\<close> (\<open>None\<close> for \<open>null\<close>),
  \<open>semver.major\<close>, \<open>semver.gt\<close>, the time value of the date a string denotes (\<open>None\<close>
  for an invalid date, whose time value is \<open>NaN\<close>), \<open>Date.prototype.toISOString\<close>, and
  the rounding of a sum to the nearest double.
\<close>

record Library =
  semver_valid :: "string \<Rightarrow> string option"
  semver_major :: "string \<Rightarrow> int"
  semver_gt :: "string \<Rightarrow> string \<Rightarrow> bool"
  Date_getTime :: "string \<Rightarrow> int option"
  Date_toISOString :: "int \<Rightarrow> string"
  double_round :: "rat \<Rightarrow> rat"

text \<open>
  What one invocation meets outside the program: the clock, the version of the
  running package, the answers of the requests, and whether the cache file can be
  written. The release list request fails (the error is caught), or its body is JSON
  that is not an array (an error object of the API, say), or it is an array of
  releases. The body of the pinned release request is any JSON value, \<open>None\<close> when the
  request or the parsing of the body fails. The download of an asset, called with
  the value of \<open>browser_download_url\<close>, gives the text or fails (\<open>None\<close>).
\<close>

datatype releases_response =
    ReleasesRequestFailed
  | ReleasesNotArray
  | ReleasesArray "Release list"

record World =
  now :: int
  hardhatVersion :: string
  releasesResponse :: releases_response
  v3ReleaseResponse :: "js_value option"
  assetResponse :: "js_value option \<Rightarrow> string option"
  writeSucceeds :: bool

text \<open>
  What one invocation does, in order: the requests it sends, the notices it prints
  (the text inside the box, colours left out) and the call of \<open>writeCache\<close>.
\<close>

datatype notice = NewVersionNotice string string | V3ReleaseNotice string

datatype effect =
    RequestReleases
  | RequestV3Release
  | RequestAsset "js_value option"
  | ConsoleLog notice
  | WriteCache VersionNotifierCache

definition noticeText :: "notice \<Rightarrow> string" where
  \<open>noticeText n =
     (case n of
        NewVersionNotice current release \<Rightarrow>
          ''New Hardhat release available! '' @ current @ '' -> '' @ release @ ''.\<newline>'' @
          ''\<newline>'' @
          ''Changelog: https://hardhat.org/release/'' @ release @ ''\<newline>'' @
          ''\<newline>'' @
          ''Run "npm install hardhat@latest" to update.''
      | V3ReleaseNotice message \<Rightarrow> message)\<close>

definition GITHUB_REPO :: string where
  "GITHUB_REPO = ''hardhat''"

definition V3_RELEASE_TAG :: string where
  "V3_RELEASE_TAG = ''hardhat@3.0.0''"

definition V3_RELEASE_VERSION_NOTIFIER_ASSET_NAME :: string where
  "V3_RELEASE_VERSION_NOTIFIER_ASSET_NAME = ''version-notifier-message.txt''"

definition V3_RELEASE_MAX_TIMES_SHOWN :: rat where
  "V3_RELEASE_MAX_TIMES_SHOWN = 5"

definition oneDay :: int where
  "oneDay = 1000 * 60 * 60 * 24"

text \<open>
  The comparison \<open>x < c\<close> of a number with a finite constant, and \<open>x++\<close>: the sum is
  rounded to a double, an infinity stays what it is.
\<close>

definition number_less :: "js_number \<Rightarrow> rat \<Rightarrow> bool" where
  "number_less x c =
     (case x of Finite r \<Rightarrow> r < c | PlusInfinity \<Rightarrow> False | MinusInfinity \<Rightarrow> True)"

definition increment :: "Library \<Rightarrow> js_number \<Rightarrow> js_number" where
  "increment lib x =
     (case x of
        Finite r \<Rightarrow> Finite (double_round lib (r + 1))
      | PlusInfinity \<Rightarrow> PlusInfinity
      | MinusInfinity \<Rightarrow> MinusInfinity)"

text \<open>
  The cache file holds the value \<open>JSON.parse\<close> reads from it; \<open>None\<close> is a file that is
  missing or is not JSON. \<open>readCache\<close> takes \<open>lastCheck\<close> when it is a string and
  \<open>v3TimesShown\<close> when it is a number, and nothing else.
\<close>

definition readCache :: "js_value option \<Rightarrow> VersionNotifierCache" where
  "readCache file =
     (case file of
        Some (JObject ms) \<Rightarrow>
          \<lparr> lastCheck = (case map_of ms ''lastCheck'' of
                           Some (JString s) \<Rightarrow> LastCheckString s
                         | _ \<Rightarrow> LastCheckZero),
            v3TimesShown = (case map_of ms ''v3TimesShown'' of
                              Some (JNumber n) \<Rightarrow> n
                            | _ \<Rightarrow> Finite 0),
            v3Release = None,
            v3ReleaseMessage = None \<rparr>
      | _ \<Rightarrow> \<lparr> lastCheck = LastCheckZero, v3TimesShown = Finite 0,
               v3Release = None, v3ReleaseMessage = None \<rparr>)"

text \<open>
  \<open>writeCache\<close> writes \<open>JSON.stringify(cache, null, 2)\<close>: the members of the cache in
  property order, a member that is \<open>undefined\<close> left out. \<open>reparse\<close> is what
  \<open>JSON.parse\<close> reads back from the text \<open>JSON.stringify\<close> writes for a value: an
  infinity is written as \<open>null\<close>, everything else comes back as it was. A write that
  fails is swallowed and leaves the file as it was.
\<close>

fun reparse :: "js_value \<Rightarrow> js_value" where
  "reparse (JNumber n) = (case n of Finite r \<Rightarrow> JNumber (Finite r) | _ \<Rightarrow> JNull)"
| "reparse (JArray xs) = JArray (map reparse xs)"
| "reparse (JObject ms) = JObject (map (\<lambda>(k, v). (k, reparse v)) ms)"
| "reparse JNull = JNull"
| "reparse (JBool b) = JBool b"
| "reparse (JString s) = JString s"

definition cache_json :: "VersionNotifierCache \<Rightarrow> js_value" where
  "cache_json c =
     JObject
       ([(''lastCheck'', (case lastCheck c of
                            LastCheckString s \<Rightarrow> JString s
                          | LastCheckZero \<Rightarrow> JNumber (Finite 0))),
         (''v3TimesShown'', JNumber (v3TimesShown c))]
        @ (case v3ReleaseMessage c of Some m \<Rightarrow> [(''v3ReleaseMessage'', JString m)] | None \<Rightarrow> [])
        @ (case v3Release c of Some r \<Rightarrow> [(''v3Release'', r)] | None \<Rightarrow> []))"

definition writeCache ::
  "World \<Rightarrow> VersionNotifierCache \<Rightarrow> js_value option \<Rightarrow> js_value option" where
  "writeCache w c file = (if writeSucceeds w then Some (reparse (cache_json c)) else file)"

text \<open>
  \<open>getReleases\<close>: a failed request leaves the empty list; the sort stands outside the
  \<open>try\<close>, so on a body that is not an array the call of \<open>releases.sort\<close> throws. The
  sort is stable and puts the latest publication first.
\<close>

definition getReleases :: "World \<Rightarrow> Release list result" where
  "getReleases w =
     (case releasesResponse w of
        ReleasesRequestFailed \<Rightarrow> Value []
      | ReleasesNotArray \<Rightarrow> TypeError
      | ReleasesArray releases \<Rightarrow> Value (sort_key (\<lambda>r. - published_at r) releases))"

text \<open>
  \<open>getV3Release\<close>: inside the \<open>try\<close>, reading \<open>message\<close> of \<open>null\<close> throws and a message
  \<open>Not Found\<close> is thrown on purpose; both are caught. Any other body is returned as
  the release.
\<close>

definition getV3Release :: "World \<Rightarrow> js_value option" where
  "getV3Release w =
     (case v3ReleaseResponse w of
        None \<Rightarrow> None
      | Some jsonResponse \<Rightarrow>
          if jsonResponse = JNull then None
          else if member jsonResponse ''message'' = Some (JString ''Not Found'') then None
          else Some jsonResponse)"

text \<open>
  \<open>getV3ReleaseMessage\<close>: \<open>v3Release.assets.find\<close> stands outside the \<open>try\<close>; it throws
  when \<open>assets\<close> is not an array and when the callback destructures an element that
  is \<open>null\<close>. The download stands inside the \<open>try\<close>.
\<close>

fun find_asset :: "js_value list \<Rightarrow> js_value option result" where
  "find_asset [] = Value None"
| "find_asset (a # as) =
     (if a = JNull then TypeError
      else if member a ''name'' = Some (JString V3_RELEASE_VERSION_NOTIFIER_ASSET_NAME)
      then Value (Some a)
      else find_asset as)"

definition getV3ReleaseMessage :: "World \<Rightarrow> js_value \<Rightarrow> (effect list \<times> string option) result" where
  "getV3ReleaseMessage w rel =
     (case member rel ''assets'' of
        Some (JArray as) \<Rightarrow>
          (case find_asset as of
             TypeError \<Rightarrow> TypeError
           | Value None \<Rightarrow> Value ([], None)
           | Value (Some versionNotifierAsset) \<Rightarrow>
               (let url = member versionNotifierAsset ''browser_download_url''
                in Value ([RequestAsset url], assetResponse w url)))
      | _ \<Rightarrow> TypeError)"

definition element :: "'a list \<Rightarrow> nat \<Rightarrow> 'a option" where
  "element xs i = (if i < length xs then Some (xs ! i) else None)"

definition valid :: "Library \<Rightarrow> string option \<Rightarrow> string option" where
  "valid lib v = (case v of None \<Rightarrow> None | Some s \<Rightarrow> semver_valid lib s)"

definition isLatestV2 :: "Library \<Rightarrow> Release \<Rightarrow> bool" where
  "isLatestV2 lib release =
     (if draft release \<or> prerelease release then False
      else (let parts = split CHR ''@'' (tag_name release);
                packageName = element parts 0;
                packageVersion = element parts 1
            in packageName = Some GITHUB_REPO \<and>
               (case packageVersion of
                  None \<Rightarrow> False
                | Some v \<Rightarrow> semver_valid lib v \<noteq> None \<and> semver_major lib v = 2)))"

text \<open>
  \<open>new Date(cache.lastCheck).getTime()\<close>: the epoch for \<open>0\<close>, the time value of the
  string otherwise. The guard compares numbers; a comparison with \<open>NaN\<close> is false.
\<close>

definition lastCheckTime :: "Library \<Rightarrow> VersionNotifierCache \<Rightarrow> int option" where
  "lastCheckTime lib cache =
     (case lastCheck cache of
        LastCheckZero \<Rightarrow> Some 0
      | LastCheckString s \<Rightarrow> Date_getTime lib s)"

definition guardActive :: "Library \<Rightarrow> World \<Rightarrow> VersionNotifierCache \<Rightarrow> bool" where
  "guardActive lib w cache =
     (case lastCheckTime lib cache of
        None \<Rightarrow> False
      | Some t \<Rightarrow> now w - t < oneDay)"

definition lane1 :: "Library \<Rightarrow> World \<Rightarrow> Release option \<Rightarrow> effect list" where
  "lane1 lib w latestV2Release =
     (case latestV2Release of
        None \<Rightarrow> []
      | Some r \<Rightarrow>
          (case valid lib (element (split CHR ''@'' (tag_name r)) 1) of
             None \<Rightarrow> []
           | Some releaseVersion \<Rightarrow>
               if semver_gt lib releaseVersion (hardhatVersion w)
               then [ConsoleLog (NewVersionNotice (hardhatVersion w) releaseVersion)]
               else []))"

text \<open>
  Lane 2, lines 355 to 368: \<open>v3Release.tag_name.split\<close> throws unless \<open>tag_name\<close> is a
  string. The result is what has been requested and printed, and the cache as the
  lane leaves it, or the \<open>TypeError\<close>.
\<close>

definition lane2 ::
  "Library \<Rightarrow> World \<Rightarrow> VersionNotifierCache \<Rightarrow> js_value option
     \<Rightarrow> effect list \<times> VersionNotifierCache result" where
  "lane2 lib w cache rel =
     (case rel of
        None \<Rightarrow> ([], Value cache)
      | Some r \<Rightarrow>
          (case member r ''tag_name'' of
             Some (JString tag) \<Rightarrow>
               (case valid lib (element (split CHR ''@'' tag) 1) of
                  None \<Rightarrow> ([], Value cache)
                | Some releaseVersion \<Rightarrow>
                    if number_less (v3TimesShown cache) V3_RELEASE_MAX_TIMES_SHOWN
                    then (case (case v3ReleaseMessage cache of
                                  Some m \<Rightarrow> Value ([], Some m)
                                | None \<Rightarrow> getV3ReleaseMessage w r) of
                            TypeError \<Rightarrow> ([], TypeError)
                          | Value (requests, message) \<Rightarrow>
                              (case message of
                                 Some m \<Rightarrow>
                                   (requests @ [ConsoleLog (V3ReleaseNotice m)],
                                    Value (cache \<lparr> v3ReleaseMessage := message,
                                                   v3TimesShown := increment lib (v3TimesShown cache) \<rparr>))
                               | None \<Rightarrow> (requests, Value (cache \<lparr> v3ReleaseMessage := message \<rparr>))))
                    else ([], Value cache))
           | _ \<Rightarrow> ([], TypeError)))"

text \<open>
  \<open>showNewVersionNotification\<close>: the effects of the invocation, the cache file it
  leaves, and whether it returned or threw.
\<close>

definition showNewVersionNotification ::
  "Library \<Rightarrow> World \<Rightarrow> js_value option \<Rightarrow> effect list \<times> js_value option \<times> completion" where
  "showNewVersionNotification lib w file =
     (let cache = readCache file
      in if guardActive lib w cache then ([], file, Returned)
         else
           (case getReleases w of
              TypeError \<Rightarrow> ([RequestReleases], file, Threw)
            | Value releases \<Rightarrow>
                (let latestV2Release = List.find (isLatestV2 lib) releases;
                     (lookup, rel) = (case v3Release cache of
                                        Some r \<Rightarrow> ([], Some r)
                                      | None \<Rightarrow> ([RequestV3Release], getV3Release w))
                 in if latestV2Release = None \<and> rel = None
                    then (RequestReleases # lookup, file, Returned)
                    else
                      (let printed1 = lane1 lib w latestV2Release
                       in case lane2 lib w cache rel of
                            (printed2, TypeError) \<Rightarrow>
                              (RequestReleases # lookup @ printed1 @ printed2, file, Threw)
                          | (printed2, Value cache') \<Rightarrow>
                              (let written =
                                     cache' \<lparr> lastCheck := LastCheckString (Date_toISOString lib (now w)),
                                              v3Release := rel \<rparr>
                               in (RequestReleases # lookup @ printed1 @ printed2 @ [WriteCache written],
                                   writeCache w written file, Returned))))))"

text \<open>
  A sequence of invocations, each on the cache file the one before has left; the
  result is what each invocation did.
\<close>

fun invocations :: "Library \<Rightarrow> World list \<Rightarrow> js_value option \<Rightarrow> effect list list" where
  "invocations lib [] file = []"
| "invocations lib (w # ws) file =
     (case showNewVersionNotification lib w file of
        (effects, file', c) \<Rightarrow> effects # invocations lib ws file')"

definition isRequest :: "effect \<Rightarrow> bool" where
  "isRequest e = (case e of RequestReleases \<Rightarrow> True | RequestV3Release \<Rightarrow> True
                  | RequestAsset u \<Rightarrow> True | _ \<Rightarrow> False)"

definition isLane1Notice :: "effect \<Rightarrow> bool" where
  "isLane1Notice e = (case e of ConsoleLog (NewVersionNotice c r) \<Rightarrow> True | _ \<Rightarrow> False)"

definition isLane2Notice :: "effect \<Rightarrow> bool" where
  "isLane2Notice e = (case e of ConsoleLog (V3ReleaseNotice m) \<Rightarrow> True | _ \<Rightarrow> False)"

definition isWriteCache :: "effect \<Rightarrow> bool" where
  "isWriteCache e = (case e of WriteCache c \<Rightarrow> True | _ \<Rightarrow> False)"

text \<open>
  Answers of the two release requests as the API documents them, on which nothing
  outside a \<open>try\<close> throws: the body of the release list is an array (or the request
  fails), and the body of the pinned release is a release object, with a string
  \<open>tag_name\<close> and an array \<open>assets\<close> that holds no \<open>null\<close>, or the answer \<open>Not Found\<close>
  (or \<open>null\<close>, or the request fails).
\<close>

definition isReleaseObject :: "js_value \<Rightarrow> bool" where
  "isReleaseObject v =
     (case member v ''tag_name'' of
        Some (JString tag) \<Rightarrow>
          (case member v ''assets'' of
             Some (JArray as) \<Rightarrow> JNull \<notin> set as
           | _ \<Rightarrow> False)
      | _ \<Rightarrow> False)"

definition answersWellFormed :: "World \<Rightarrow> bool" where
  "answersWellFormed w =
     (releasesResponse w \<noteq> ReleasesNotArray \<and>
      (case v3ReleaseResponse w of
         None \<Rightarrow> True
       | Some body \<Rightarrow>
           body = JNull \<or> member body ''message'' = Some (JString ''Not Found'')
           \<or> isReleaseObject body))"


section \<open>Example inputs\<close>

definition exampleToken :: Artifact where
  "exampleToken =
     \<lparr> format = ''hh-sol-artifact-1'', contractName = ''Token'',
       sourceName = ''contracts/Token.sol'',
       abi = [[(''inputs'', JArray []), (''name'', JString ''totalSupply''),
               (''type'', JString ''function'')],
              [(''inputs'', JArray [JObject [(''internalType'', JString ''uint256''),
                                            (''name'', JString ''supply''),
                                            (''type'', JString ''uint256'')],
                                   JObject [(''internalType'', JString ''address''),
                                            (''name'', JString ''owner''),
                                            (''type'', JString ''address'')]]),
               (''stateMutability'', JString ''nonpayable''),
               (''type'', JString ''constructor'')]],
       bytecode = ''0x'', deployedBytecode = ''0x'',
       linkReferences = JObject [], deployedLinkReferences = JObject [] \<rparr>"

definition exampleLibrary :: Artifact where
  "exampleLibrary =
     \<lparr> format = ''hh-sol-artifact-1'', contractName = ''Lib'',
       sourceName = ''contracts/Lib.sol'',
       abi = [[(''inputs'', JArray []), (''name'', JString ''f''),
               (''type'', JString ''function'')]],
       bytecode = ''0x'', deployedBytecode = ''0x'',
       linkReferences = JObject [], deployedLinkReferences = JObject [] \<rparr>"

definition exampleEmpty :: Artifact where
  "exampleEmpty =
     \<lparr> format = ''hh-sol-artifact-1'', contractName = ''Empty'',
       sourceName = ''contracts/Empty.sol'',
       abi = [[(''inputs'', JArray []), (''stateMutability'', JString ''nonpayable''),
               (''type'', JString ''constructor'')]],
       bytecode = ''0x'', deployedBytecode = ''0x'',
       linkReferences = JObject [], deployedLinkReferences = JObject [] \<rparr>"

text \<open>
  A toy instance of the libraries, enough for the versions and the two dates of the
  examples: midnight of 1 January 2024 and of the day after.
\<close>

definition exampleLib :: Library where
  "exampleLib =
     \<lparr> semver_valid = (\<lambda>s. if s = ''2.22.0'' \<or> s = ''2.26.0'' \<or> s = ''3.0.0'' then Some s else None),
       semver_major = (\<lambda>s. if s = ''3.0.0'' then 3 else 2),
       semver_gt = (\<lambda>a b. a = ''2.26.0'' \<and> b = ''2.22.0''),
       Date_getTime = (\<lambda>s. if s = ''2024-01-01T00:00:00.000Z'' then Some 1704067200000
                            else if s = ''2024-01-02T00:00:00.000Z'' then Some 1704153600000
                            else None),
       Date_toISOString = (\<lambda>t. if t = 1704153600000 then ''2024-01-02T00:00:00.000Z''
                                else ''2024-01-04T00:00:00.000Z''),
       double_round = (\<lambda>r. r) \<rparr>"

definition exampleV2Release :: Release where
  "exampleV2Release =
     \<lparr> tag_name = ''hardhat@2.26.0'', draft = False, prerelease = False,
       published_at = 1700000000000 \<rparr>"

definition exampleV3Listed :: Release where
  "exampleV3Listed =
     \<lparr> tag_name = ''hardhat@3.0.0'', draft = False, prerelease = False,
       published_at = 1703000000000 \<rparr>"

definition exampleV3Release :: js_value where
  "exampleV3Release =
     JObject [(''name'', JString ''Hardhat v3.0.0''),
              (''tag_name'', JString ''hardhat@3.0.0''),
              (''draft'', JBool False),
              (''prerelease'', JBool False),
              (''published_at'', JString ''2023-12-19T15:33:20Z''),
              (''html_url'', JString ''https://example.org/v3''),
              (''assets'', JArray [JObject [(''name'', JString ''version-notifier-message.txt''),
                                           (''browser_download_url'',
                                            JString ''https://example.org/message.txt'')]]),
              (''body'', JString [])]"

definition rateLimitBody :: js_value where
  "rateLimitBody =
     JObject [(''message'', JString ''API rate limit exceeded''),
              (''documentation_url'', JString ''https://docs.github.com/rest'')]"

definition worldNextDay :: World where
  "worldNextDay =
     \<lparr> now = 1704153600000, hardhatVersion = ''2.22.0'',
       releasesResponse = ReleasesArray [exampleV2Release, exampleV3Listed],
       v3ReleaseResponse = Some exampleV3Release,
       assetResponse = (\<lambda>u. Some ''Hardhat 3 is out''),
       writeSucceeds = True \<rparr>"

definition worldOffline :: World where
  "worldOffline =
     \<lparr> now = 1704153600000, hardhatVersion = ''2.22.0'',
       releasesResponse = ReleasesRequestFailed,
       v3ReleaseResponse = None,
       assetResponse = (\<lambda>u. None),
       writeSucceeds = True \<rparr>"

definition cacheChecked :: js_value where
  "cacheChecked =
     JObject [(''lastCheck'', JString ''2024-01-01T00:00:00.000Z''),
              (''v3TimesShown'', JNumber (Finite 0))]"

definition cacheWithRelease :: js_value where
  "cacheWithRelease =
     JObject [(''lastCheck'', JString ''2024-01-01T00:00:00.000Z''),
              (''v3TimesShown'', JNumber (Finite 0)),
              (''v3Release'', exampleV3Release)]"

definition cacheCapped :: js_value where
  "cacheCapped =
     JObject [(''lastCheck'', JString ''2024-01-01T00:00:00.000Z''),
              (''v3TimesShown'', JNumber (Finite 5))]"

definition cacheInfinite :: js_value where
  "cacheInfinite =
     JObject [(''lastCheck'', JString ''2024-01-01T00:00:00.000Z''),
              (''v3TimesShown'', JNumber PlusInfinity)]"

section \<open>Name collisions\<close>

lemma indexOfFrom_eq:
  "indexOfFrom k xs x =
     (if x \<in> set xs then k + int (length (takeWhile (\<lambda>y. y \<noteq> x) xs)) else - 1)"
  by (induction xs arbitrary: k) auto

lemma indexOf_eq:
  "indexOf xs x = (if x \<in> set xs then int (length (takeWhile (\<lambda>y. y \<noteq> x) xs)) else - 1)"
  by (simp add: indexOf_def indexOfFrom_eq)

lemma set_filterFrom:
  "set (filterFrom k p xs) = {xs ! i | i. i < length xs \<and> p (xs ! i) (k + int i)}"
proof (induction xs arbitrary: k)
  case Nil
  then show ?case by simp
next
  case (Cons x xs)
  have split: "{(x # xs) ! i | i. i < length (x # xs) \<and> p ((x # xs) ! i) (k + int i)}
      = (if p x k then {x} else {}) \<union> {xs ! i | i. i < length xs \<and> p (xs ! i) (k + 1 + int i)}"
    (is "?L = ?R")
  proof (rule set_eqI)
    fix y
    show "y \<in> ?L \<longleftrightarrow> y \<in> ?R"
    proof
      assume "y \<in> ?L"
      then obtain i where i: "i < length (x # xs)" "y = (x # xs) ! i" "p ((x # xs) ! i) (k + int i)"
        by auto
      show "y \<in> ?R"
      proof (cases i)
        case 0
        with i show ?thesis by auto
      next
        case (Suc j)
        with i have "j < length xs" "y = xs ! j" "p (xs ! j) (k + 1 + int j)"
          by (auto simp: algebra_simps)
        then show ?thesis by auto
      qed
    next
      assume "y \<in> ?R"
      then consider "p x k" "y = x"
        | j where "j < length xs" "y = xs ! j" "p (xs ! j) (k + 1 + int j)"
        by (auto split: if_splits)
      then show "y \<in> ?L"
      proof cases
        case 1
        then have "0 < length (x # xs) \<and> y = (x # xs) ! 0 \<and> p ((x # xs) ! 0) (k + int 0)"
          by simp
        then show ?thesis by blast
      next
        case 2
        then have "Suc j < length (x # xs) \<and> y = (x # xs) ! Suc j
                   \<and> p ((x # xs) ! Suc j) (k + int (Suc j))"
          by (simp add: algebra_simps)
        then show ?thesis by blast
      qed
    qed
  qed
  show ?case using Cons.IH [of "k + 1"] split by auto
qed

lemma dup_iff_position:
  "n \<in> set (dupContractNames names) \<longleftrightarrow>
     (\<exists>i<length names. names ! i = n \<and> indexOf names n \<noteq> int i)"
  unfolding dupContractNames_def filter_indexed_def set_filterFrom by auto

lemma later_occurrence_iff_count:
  "(\<exists>i<length xs. xs ! i = n \<and> i \<noteq> length (takeWhile (\<lambda>y. y \<noteq> n) xs))
     \<longleftrightarrow> 2 \<le> count_list xs n"
proof (induction xs)
  case Nil
  then show ?case by simp
next
  case (Cons x xs)
  show ?case
  proof (cases "x = n")
    case True
    have "(\<exists>i<length (x # xs). (x # xs) ! i = n \<and> i \<noteq> 0) \<longleftrightarrow> n \<in> set xs"
    proof
      assume "\<exists>i<length (x # xs). (x # xs) ! i = n \<and> i \<noteq> 0"
      then obtain i where "i < length (x # xs)" "(x # xs) ! i = n" "i \<noteq> 0" by blast
      then show "n \<in> set xs" by (cases i) auto
    next
      assume "n \<in> set xs"
      then obtain j where "j < length xs" "xs ! j = n" by (auto simp: in_set_conv_nth)
      then have "Suc j < length (x # xs) \<and> (x # xs) ! Suc j = n \<and> Suc j \<noteq> 0" by simp
      then show "\<exists>i<length (x # xs). (x # xs) ! i = n \<and> i \<noteq> 0" by blast
    qed
    moreover have "n \<in> set xs \<longleftrightarrow> 1 \<le> count_list xs n"
      by (metis count_list_0_iff not_less_eq_eq le_zero_eq One_nat_def)
    ultimately show ?thesis using True by simp
  next
    case False
    let ?f = "length (takeWhile (\<lambda>y. y \<noteq> n) xs)"
    have "(\<exists>i<length (x # xs). (x # xs) ! i = n \<and> i \<noteq> Suc ?f)
        \<longleftrightarrow> (\<exists>j<length xs. xs ! j = n \<and> j \<noteq> ?f)"
    proof
      assume "\<exists>i<length (x # xs). (x # xs) ! i = n \<and> i \<noteq> Suc ?f"
      then obtain i where i: "i < length (x # xs)" "(x # xs) ! i = n" "i \<noteq> Suc ?f" by blast
      with False obtain j where "i = Suc j" by (cases i) auto
      with i show "\<exists>j<length xs. xs ! j = n \<and> j \<noteq> ?f" by auto
    next
      assume "\<exists>j<length xs. xs ! j = n \<and> j \<noteq> ?f"
      then obtain j where "j < length xs" "xs ! j = n" "j \<noteq> ?f" by blast
      then have "Suc j < length (x # xs) \<and> (x # xs) ! Suc j = n \<and> Suc j \<noteq> Suc ?f" by simp
      then show "\<exists>i<length (x # xs). (x # xs) ! i = n \<and> i \<noteq> Suc ?f" by blast
    qed
    then show ?thesis using False Cons.IH by simp
  qed
qed

lemma dup_iff_count:
  "n \<in> set (dupContractNames names) \<longleftrightarrow> 2 \<le> count_list names n"
proof -
  have "(\<exists>i<length names. names ! i = n \<and> indexOf names n \<noteq> int i)
      \<longleftrightarrow> (\<exists>i<length names. names ! i = n \<and> i \<noteq> length (takeWhile (\<lambda>y. y \<noteq> n) names))"
    by (auto simp: indexOf_eq)
  then show ?thesis by (simp add: dup_iff_position later_occurrence_iff_count)
qed

text \<open>
  C7: a bare name is flagged as colliding exactly when it stands at a position of the
  list of contract names other than the position \<open>indexOf\<close> finds, its first
  occurrence; from the list A, B, A, C exactly A is flagged, B and C are not.
\<close>

theorem collision_flagged_iff_later_position:
  "(array_includes (dupContractNames names) n \<longleftrightarrow>
      (\<exists>i<length names. names ! i = n \<and> indexOf names n \<noteq> int i))
   \<and> indexOf names n = (if n \<in> set names
                         then int (length (takeWhile (\<lambda>y. y \<noteq> n) names)) else - 1)
   \<and> dupContractNames [''A'', ''B'', ''A'', ''C''] = [''A'']"
proof (intro conjI)
  show "array_includes (dupContractNames names) n \<longleftrightarrow>
      (\<exists>i<length names. names ! i = n \<and> indexOf names n \<noteq> int i)"
    by (simp add: array_includes_def dup_iff_position)
  show "indexOf names n = (if n \<in> set names
                         then int (length (takeWhile (\<lambda>y. y \<noteq> n) names)) else - 1)"
    by (rule indexOf_eq)
  show "dupContractNames [''A'', ''B'', ''A'', ''C''] = [''A'']"
    by (simp add: dupContractNames_def filter_indexed_def indexOf_def)
qed

theorem collision_flagged_example:
  "array_includes (dupContractNames [''A'', ''B'', ''A'', ''C'']) ''A''
   \<and> \<not> array_includes (dupContractNames [''A'', ''B'', ''A'', ''C'']) ''B''
   \<and> \<not> array_includes (dupContractNames [''A'', ''B'', ''A'', ''C'']) ''C''"
  using collision_flagged_iff_later_position [of "[''A'', ''B'', ''A'', ''C'']" "''A''"]
  by (simp add: array_includes_def)


section \<open>The generated declarations\<close>

lemma join_contains:
  "x \<in> set xs \<Longrightarrow> \<exists>before after. join sep xs = before @ x @ after"
proof (induction sep xs rule: join.induct)
  case (1 sep)
  then show ?case by simp
next
  case (2 sep y)
  then have "join sep [y] = [] @ x @ []" by simp
  then show ?case by blast
next
  case (3 sep y z zs)
  show ?case
  proof (cases "x = y")
    case True
    then have "join sep (y # z # zs) = [] @ x @ (sep @ join sep (z # zs))" by simp
    then show ?thesis by blast
  next
    case False
    then have "x \<in> set (z # zs)" using 3 by simp
    then obtain b a where "join sep (z # zs) = b @ x @ a" using 3 by blast
    then have "join sep (y # z # zs) = (y @ sep @ b) @ x @ a" by simp
    then show ?thesis by blast
  qed
qed

lemma join_Cons: "join sep (x # xs) = x @ concat (map (\<lambda>y. sep @ y) xs)"
  by (induction sep xs arbitrary: x rule: join.induct) simp_all

lemma declarationText_contains_deploy:
  assumes "nm \<in> set names"
  shows "\<exists>before after. declarationText artifact ins names
           = before @ deployContractDeclaration (constructorArgs ins) (contractTypeName artifact) nm @ after"
proof -
  let ?d = "deployContractDeclaration (constructorArgs ins) (contractTypeName artifact)"
  have "?d nm \<in> set (map ?d names)" using assms by simp
  then obtain b a where j: "join ''\<newline>  '' (map ?d names) = b @ ?d nm @ a"
    using join_contains by blast
  obtain h t where "declarationText artifact ins names = h @ join ''\<newline>  '' (map ?d names) @ t"
    unfolding declarationText_def by (metis append.assoc)
  then have "declarationText artifact ins names = (h @ b) @ ?d nm @ (a @ t)"
    using j by simp
  then show ?thesis by blast
qed

lemma find_first:
  assumes "\<forall>x \<in> set before. \<not> P x" and "P c"
  shows "List.find P (before @ c # after) = Some c"
  using assms by (induction before) auto

lemma those_as_input:
  assumes "list_all2 (\<lambda>p nt. \<exists>ms. p = JObject ms \<and> map_of ms ''name'' = Some (JString (fst nt))
                                 \<and> map_of ms ''type'' = Some (JString (snd nt))) params nts"
  shows "those (map as_input params)
           = Some (map (\<lambda>nt. \<lparr> input_name = fst nt, input_type = snd nt \<rparr>) nts)"
  using assms
proof (induction params nts rule: list_all2_induct)
  case Nil
  then show ?case by simp
next
  case (Cons p ps nt nts)
  then obtain ms where "p = JObject ms" "map_of ms ''name'' = Some (JString (fst nt))"
    "map_of ms ''type'' = Some (JString (snd nt))" by blast
  then have "as_input p = Some \<lparr> input_name = fst nt, input_type = snd nt \<rparr>" by simp
  then show ?case using Cons.IH by simp
qed


lemma quote_name: \<open>quote ''name'' = ''"name"''\<close> and quote_type: \<open>quote ''type'' = ''"type"''\<close>
  by (simp_all add: quote_def escape_char_def)

lemma parameterType_literal:
  \<open>parameterType \<lparr> input_name = n, input_type = t \<rparr> =
      ''AbiParameterToPrimitiveType<{"name":'' @ JSON_stringify (JString n) @
        '',"type":'' @ JSON_stringify (JString t) @ ''}>''\<close>
  by (simp add: parameterType_def JSON_stringify_def quote_name quote_type)

lemma constructorArgs_text:
  \<open>constructorArgs (map (\<lambda>nt. \<lparr> input_name = fst nt, input_type = snd nt \<rparr>) nts) =
     (case nts of
        [] \<Rightarrow> ''constructorArgs?: []''
      | p # ps \<Rightarrow>
          ''constructorArgs: ['' @
          ''AbiParameterToPrimitiveType<{"name":'' @ JSON_stringify (JString (fst p)) @
            '',"type":'' @ JSON_stringify (JString (snd p)) @ ''}>'' @
          concat (map (\<lambda>q. '', AbiParameterToPrimitiveType<{"name":'' @ JSON_stringify (JString (fst q)) @
                              '',"type":'' @ JSON_stringify (JString (snd q)) @ ''}>'') ps) @
          '']'')\<close>
proof (cases nts)
  case Nil
  then show ?thesis by (simp add: constructorArgs_def)
next
  case (Cons p ps)
  show ?thesis
    unfolding Cons
    by (simp add: constructorArgs_def join_Cons parameterType_literal comp_def)
qed

lemma deployContractDeclaration_text:
  \<open>deployContractDeclaration cArgs (contractTypeName artifact) nm =
     ''export function deployContract(\<newline>    contractName: "'' @ nm @ ''",\<newline>    '' @
     cArgs @
     '',\<newline>    config?: DeployContractConfig\<newline>  ): Promise<GetContractReturnType<'' @
     contractName artifact @ ''$Type["abi"]>>;''\<close>
  by (simp add: deployContractDeclaration_def contractTypeName_def)

text \<open>
  C1: take an artifact whose first ABI entry of type \<open>constructor\<close> has the inputs
  \<open>params\<close>, with the names and types \<open>nts\<close>, and a name \<open>nm\<close> the declaration is
  generated for. The generated text holds the deploy signature of \<open>nm\<close>, and in it
  the argument list is the optional \<open>constructorArgs?: []\<close> when the constructor has
  no parameter, and otherwise the required list \<open>constructorArgs: [...]\<close> of one
  element type per constructor input, derived from the name and type of that input,
  in the order of the inputs.
\<close>

theorem constructor_arguments_follow_inputs:
  assumes \<open>abi artifact = before @ c # after\<close>
    and \<open>\<forall>item \<in> set before. map_of item ''type'' \<noteq> Some (JString ''constructor'')\<close>
    and \<open>map_of c ''type'' = Some (JString ''constructor'')\<close>
    and \<open>map_of c ''inputs'' = Some (JArray params)\<close>
    and \<open>list_all2 (\<lambda>p nt. \<exists>ms. p = JObject ms \<and> map_of ms ''name'' = Some (JString (fst nt))
                                  \<and> map_of ms ''type'' = Some (JString (snd nt))) params nts\<close>
    and \<open>nm = sourceName artifact @ '':'' @ contractName artifact
          \<or> (\<not> isDup \<and> nm = contractName artifact)\<close>
  shows \<open>\<exists>head tail.
     generateContractDeclaration artifact isDup = Some (head @
       ''export function deployContract(\<newline>    contractName: "'' @ nm @ ''",\<newline>    '' @
       (case nts of
          [] \<Rightarrow> ''constructorArgs?: []''
        | p # ps \<Rightarrow>
            ''constructorArgs: ['' @
            ''AbiParameterToPrimitiveType<{"name":'' @ JSON_stringify (JString (fst p)) @
              '',"type":'' @ JSON_stringify (JString (snd p)) @ ''}>'' @
            concat (map (\<lambda>q. '', AbiParameterToPrimitiveType<{"name":'' @ JSON_stringify (JString (fst q)) @
                                '',"type":'' @ JSON_stringify (JString (snd q)) @ ''}>'') ps) @
            '']'') @
       '',\<newline>    config?: DeployContractConfig\<newline>  ): Promise<GetContractReturnType<'' @
       contractName artifact @ ''$Type["abi"]>>;'' @ tail)\<close>
proof -
  let ?ins = "map (\<lambda>nt. \<lparr> input_name = fst nt, input_type = snd nt \<rparr>) nts"
  have "constructorAbi artifact = Some c"
    unfolding constructorAbi_def assms(1) using assms(2,3)
    by (intro find_first) (simp_all add: property_def)
  then have ins: "inputs artifact = Some ?ins"
    using assms(4) those_as_input [OF assms(5)] by (simp add: inputs_def property_def)
  have nm: "nm \<in> set (validNames artifact isDup)"
    using assms(6) by (auto simp: validNames_def getFullyQualifiedName_def Let_def)
  obtain h t where "declarationText artifact ?ins (validNames artifact isDup)
      = h @ deployContractDeclaration (constructorArgs ?ins) (contractTypeName artifact) nm @ t"
    using declarationText_contains_deploy [OF nm] by blast
  then have "generateContractDeclaration artifact isDup
      = Some (h @ deployContractDeclaration (constructorArgs ?ins) (contractTypeName artifact) nm @ t)"
    using ins by (simp add: generateContractDeclaration_def)
  then have \<open>generateContractDeclaration artifact isDup
      = Some (h @ deployContractDeclaration
                    (case nts of
                       [] \<Rightarrow> ''constructorArgs?: []''
                     | p # ps \<Rightarrow>
                         ''constructorArgs: ['' @
                         ''AbiParameterToPrimitiveType<{"name":'' @ JSON_stringify (JString (fst p)) @
                           '',"type":'' @ JSON_stringify (JString (snd p)) @ ''}>'' @
                         concat (map (\<lambda>q. '', AbiParameterToPrimitiveType<{"name":'' @ JSON_stringify (JString (fst q)) @
                                             '',"type":'' @ JSON_stringify (JString (snd q)) @ ''}>'') ps) @
                         '']'')
                    (contractTypeName artifact) nm @ t)\<close>
    by (simp only: constructorArgs_text)
  then have \<open>generateContractDeclaration artifact isDup = Some (h @
       ''export function deployContract(\<newline>    contractName: "'' @ nm @ ''",\<newline>    '' @
       (case nts of
          [] \<Rightarrow> ''constructorArgs?: []''
        | p # ps \<Rightarrow>
            ''constructorArgs: ['' @
            ''AbiParameterToPrimitiveType<{"name":'' @ JSON_stringify (JString (fst p)) @
              '',"type":'' @ JSON_stringify (JString (snd p)) @ ''}>'' @
            concat (map (\<lambda>q. '', AbiParameterToPrimitiveType<{"name":'' @ JSON_stringify (JString (fst q)) @
                                '',"type":'' @ JSON_stringify (JString (snd q)) @ ''}>'') ps) @
            '']'') @
       '',\<newline>    config?: DeployContractConfig\<newline>  ): Promise<GetContractReturnType<'' @
       contractName artifact @ ''$Type["abi"]>>;'' @ t)\<close>
    by (simp only: deployContractDeclaration_text append_assoc)
  then show ?thesis by (intro exI)
qed

theorem constructor_arguments_examples:
  \<open>(\<exists>head tail.
      generateContractDeclaration exampleToken False = Some (head @
        ''export function deployContract(\<newline>    contractName: "Token",\<newline>    '' @
        ''constructorArgs: [AbiParameterToPrimitiveType<{"name":"supply","type":"uint256"}>, '' @
        ''AbiParameterToPrimitiveType<{"name":"owner","type":"address"}>]'' @
        '',\<newline>    config?: DeployContractConfig\<newline>  ): Promise<GetContractReturnType<Token$Type["abi"]>>;'' @
        tail))
   \<and> (\<exists>head tail.
      generateContractDeclaration exampleEmpty True = Some (head @
        ''export function deployContract(\<newline>    contractName: "contracts/Empty.sol:Empty",\<newline>    '' @
        ''constructorArgs?: []'' @
        '',\<newline>    config?: DeployContractConfig\<newline>  ): Promise<GetContractReturnType<Empty$Type["abi"]>>;'' @
        tail))\<close>
proof
  have a: "abi exampleToken =
      [[(''inputs'', JArray []), (''name'', JString ''totalSupply''), (''type'', JString ''function'')]]
      @ [(''inputs'', JArray [JObject [(''internalType'', JString ''uint256''),
                                            (''name'', JString ''supply''),
                                            (''type'', JString ''uint256'')],
                                   JObject [(''internalType'', JString ''address''),
                                            (''name'', JString ''owner''),
                                            (''type'', JString ''address'')]]),
               (''stateMutability'', JString ''nonpayable''),
               (''type'', JString ''constructor'')] # []"
    by (simp add: exampleToken_def)
  have nm: "''Token'' = sourceName exampleToken @ '':'' @ contractName exampleToken
          \<or> (\<not> False \<and> ''Token'' = contractName exampleToken)"
    by (simp add: exampleToken_def)
  have cn: "contractName exampleToken = ''Token''" by (simp add: exampleToken_def)
  from constructor_arguments_follow_inputs
         [OF a _ _ _ _ nm, of "_" "[(''supply'', ''uint256''), (''owner'', ''address'')]"]
  obtain head tail where
    \<open>generateContractDeclaration exampleToken False = Some (head @
       ''export function deployContract(\<newline>    contractName: "'' @ ''Token'' @ ''",\<newline>    '' @
       (case [(''supply'', ''uint256''), (''owner'', ''address'')] of
          [] \<Rightarrow> ''constructorArgs?: []''
        | p # ps \<Rightarrow>
            ''constructorArgs: ['' @
            ''AbiParameterToPrimitiveType<{"name":'' @ JSON_stringify (JString (fst p)) @
              '',"type":'' @ JSON_stringify (JString (snd p)) @ ''}>'' @
            concat (map (\<lambda>q. '', AbiParameterToPrimitiveType<{"name":'' @ JSON_stringify (JString (fst q)) @
                                '',"type":'' @ JSON_stringify (JString (snd q)) @ ''}>'') ps) @
            '']'') @
       '',\<newline>    config?: DeployContractConfig\<newline>  ): Promise<GetContractReturnType<'' @
       contractName exampleToken @ ''$Type["abi"]>>;'' @ tail)\<close>
    by fastforce
  then have \<open>generateContractDeclaration exampleToken False = Some (head @
        ''export function deployContract(\<newline>    contractName: "Token",\<newline>    '' @
        ''constructorArgs: [AbiParameterToPrimitiveType<{"name":"supply","type":"uint256"}>, '' @
        ''AbiParameterToPrimitiveType<{"name":"owner","type":"address"}>]'' @
        '',\<newline>    config?: DeployContractConfig\<newline>  ): Promise<GetContractReturnType<Token$Type["abi"]>>;'' @
        tail)\<close>
    by (simp add: cn JSON_stringify_def quote_def escape_char_def)
  then show \<open>\<exists>head tail.
      generateContractDeclaration exampleToken False = Some (head @
        ''export function deployContract(\<newline>    contractName: "Token",\<newline>    '' @
        ''constructorArgs: [AbiParameterToPrimitiveType<{"name":"supply","type":"uint256"}>, '' @
        ''AbiParameterToPrimitiveType<{"name":"owner","type":"address"}>]'' @
        '',\<newline>    config?: DeployContractConfig\<newline>  ): Promise<GetContractReturnType<Token$Type["abi"]>>;'' @
        tail)\<close>
    by (intro exI)
next
  show \<open>\<exists>head tail.
      generateContractDeclaration exampleEmpty True = Some (head @
        ''export function deployContract(\<newline>    contractName: "contracts/Empty.sol:Empty",\<newline>    '' @
        ''constructorArgs?: []'' @
        '',\<newline>    config?: DeployContractConfig\<newline>  ): Promise<GetContractReturnType<Empty$Type["abi"]>>;'' @
        tail)\<close>
  proof -
    have a: "abi exampleEmpty =
        [] @ [(''inputs'', JArray []), (''stateMutability'', JString ''nonpayable''),
               (''type'', JString ''constructor'')] # []"
      by (simp add: exampleEmpty_def)
    have nm: "''contracts/Empty.sol:Empty'' = sourceName exampleEmpty @ '':'' @ contractName exampleEmpty
          \<or> (\<not> True \<and> ''contracts/Empty.sol:Empty'' = contractName exampleEmpty)"
      by (simp add: exampleEmpty_def)
    have cn: "contractName exampleEmpty = ''Empty''" by (simp add: exampleEmpty_def)
    from constructor_arguments_follow_inputs [OF a _ _ _ _ nm, of "[]" "[]"]
    obtain head tail where
      \<open>generateContractDeclaration exampleEmpty True = Some (head @
         ''export function deployContract(\<newline>    contractName: "'' @ ''contracts/Empty.sol:Empty'' @ ''",\<newline>    '' @
         ''constructorArgs?: []'' @
         '',\<newline>    config?: DeployContractConfig\<newline>  ): Promise<GetContractReturnType<'' @
         contractName exampleEmpty @ ''$Type["abi"]>>;'' @ tail)\<close>
      by fastforce
    then have \<open>generateContractDeclaration exampleEmpty True = Some (head @
        ''export function deployContract(\<newline>    contractName: "contracts/Empty.sol:Empty",\<newline>    '' @
        ''constructorArgs?: []'' @
        '',\<newline>    config?: DeployContractConfig\<newline>  ): Promise<GetContractReturnType<Empty$Type["abi"]>>;'' @
        tail)\<close>
      by (simp add: cn)
    then show ?thesis by (intro exI)
  qed
qed

text \<open>
  C10: an artifact whose ABI holds no entry of type \<open>constructor\<close> has no constructor
  entry and the empty list of inputs, as an artifact whose constructor takes no
  parameter has; the text generated for it is the text for an empty list of inputs,
  and the deploy signature of every name it is generated for takes the optional
  \<open>constructorArgs?: []\<close>.
\<close>

theorem missing_constructor_is_zero_parameters:
  assumes \<open>\<forall>item \<in> set (abi artifact). map_of item ''type'' \<noteq> Some (JString ''constructor'')\<close>
  shows \<open>constructorAbi artifact = None
     \<and> inputs artifact = Some []
     \<and> generateContractDeclaration artifact isDup
         = Some (declarationText artifact [] (validNames artifact isDup))
     \<and> constructorArgs [] = ''constructorArgs?: []''
     \<and> (\<forall>nm. nm = sourceName artifact @ '':'' @ contractName artifact
               \<or> (\<not> isDup \<and> nm = contractName artifact) \<longrightarrow>
           (\<exists>head tail.
              generateContractDeclaration artifact isDup = Some (head @
                ''export function deployContract(\<newline>    contractName: "'' @ nm @ ''",\<newline>    '' @
                ''constructorArgs?: []'' @
                '',\<newline>    config?: DeployContractConfig\<newline>  ): Promise<GetContractReturnType<'' @
                contractName artifact @ ''$Type["abi"]>>;'' @ tail)))\<close>
proof -
  have c: "constructorAbi artifact = None"
    using assms by (simp add: constructorAbi_def find_None_iff property_def)
  then have i: "inputs artifact = Some []"
    by (simp add: inputs_def)
  then have g: "generateContractDeclaration artifact isDup
         = Some (declarationText artifact [] (validNames artifact isDup))"
    by (simp add: generateContractDeclaration_def)
  have o: "constructorArgs [] = ''constructorArgs?: []''"
    by (simp add: constructorArgs_def)
  have s: \<open>\<exists>head tail.
              generateContractDeclaration artifact isDup = Some (head @
                ''export function deployContract(\<newline>    contractName: "'' @ nm @ ''",\<newline>    '' @
                ''constructorArgs?: []'' @
                '',\<newline>    config?: DeployContractConfig\<newline>  ): Promise<GetContractReturnType<'' @
                contractName artifact @ ''$Type["abi"]>>;'' @ tail)\<close>
    if v: \<open>nm = sourceName artifact @ '':'' @ contractName artifact
               \<or> (\<not> isDup \<and> nm = contractName artifact)\<close> for nm
  proof -
    have nm: "nm \<in> set (validNames artifact isDup)"
      using v by (auto simp: validNames_def getFullyQualifiedName_def Let_def)
    obtain h t where "declarationText artifact [] (validNames artifact isDup)
        = h @ deployContractDeclaration (constructorArgs []) (contractTypeName artifact) nm @ t"
      using declarationText_contains_deploy [OF nm] by blast
    then have "generateContractDeclaration artifact isDup
        = Some (h @ deployContractDeclaration ''constructorArgs?: []'' (contractTypeName artifact) nm @ t)"
      using g by (simp only: o)
    then have \<open>generateContractDeclaration artifact isDup = Some (h @
                ''export function deployContract(\<newline>    contractName: "'' @ nm @ ''",\<newline>    '' @
                ''constructorArgs?: []'' @
                '',\<newline>    config?: DeployContractConfig\<newline>  ): Promise<GetContractReturnType<'' @
                contractName artifact @ ''$Type["abi"]>>;'' @ t)\<close>
      by (simp only: deployContractDeclaration_text append_assoc)
    then show ?thesis by (intro exI)
  qed
  show ?thesis using c i g o s by (intro conjI allI impI)
qed

theorem missing_constructor_example:
  \<open>constructorAbi exampleLibrary = None
   \<and> inputs exampleLibrary = Some []
   \<and> (\<exists>head tail.
        generateContractDeclaration exampleLibrary True = Some (head @
          ''export function deployContract(\<newline>    contractName: "contracts/Lib.sol:Lib",\<newline>    '' @
          ''constructorArgs?: []'' @
          '',\<newline>    config?: DeployContractConfig\<newline>  ): Promise<GetContractReturnType<Lib$Type["abi"]>>;'' @
          tail))\<close>
proof -
  have h: "\<forall>item \<in> set (abi exampleLibrary). map_of item ''type'' \<noteq> Some (JString ''constructor'')"
    by (simp add: exampleLibrary_def)
  note t = missing_constructor_is_zero_parameters [OF h, of True]
  have nm: "''contracts/Lib.sol:Lib'' = sourceName exampleLibrary @ '':'' @ contractName exampleLibrary
          \<or> (\<not> True \<and> ''contracts/Lib.sol:Lib'' = contractName exampleLibrary)"
    by (simp add: exampleLibrary_def)
  have cn: "contractName exampleLibrary = ''Lib''" by (simp add: exampleLibrary_def)
  from t nm obtain head tail where
    \<open>generateContractDeclaration exampleLibrary True = Some (head @
          ''export function deployContract(\<newline>    contractName: "'' @ ''contracts/Lib.sol:Lib'' @ ''",\<newline>    '' @
          ''constructorArgs?: []'' @
          '',\<newline>    config?: DeployContractConfig\<newline>  ): Promise<GetContractReturnType<'' @
          contractName exampleLibrary @ ''$Type["abi"]>>;'' @ tail)\<close>
    by blast
  then have \<open>generateContractDeclaration exampleLibrary True = Some (head @
          ''export function deployContract(\<newline>    contractName: "contracts/Lib.sol:Lib",\<newline>    '' @
          ''constructorArgs?: []'' @
          '',\<newline>    config?: DeployContractConfig\<newline>  ): Promise<GetContractReturnType<Lib$Type["abi"]>>;'' @
          tail)\<close>
    by (simp add: cn)
  then have \<open>\<exists>head tail.
        generateContractDeclaration exampleLibrary True = Some (head @
          ''export function deployContract(\<newline>    contractName: "contracts/Lib.sol:Lib",\<newline>    '' @
          ''constructorArgs?: []'' @
          '',\<newline>    config?: DeployContractConfig\<newline>  ): Promise<GetContractReturnType<Lib$Type["abi"]>>;'' @
          tail)\<close>
    by (intro exI)
  then show ?thesis using t by simp
qed

section \<open>Duplicate and unique contract names\<close>

lemma parse_getFullyQualifiedName:
  assumes "CHR '':'' \<notin> set cn"
  shows "parsed_contractName (parseFullyQualifiedName (getFullyQualifiedName sn cn)) = cn"
    and "parsed_sourceName (parseFullyQualifiedName (getFullyQualifiedName sn cn)) = sn"
proof -
  have r: "rev (getFullyQualifiedName sn cn) = rev cn @ CHR '':'' # rev sn"
    by (simp add: getFullyQualifiedName_def)
  have all: "\<forall>c \<in> set (rev cn). c \<noteq> CHR '':''" using assms by auto
  have tw: "takeWhile (\<lambda>c. c \<noteq> CHR '':'') (rev cn @ CHR '':'' # rev sn) = rev cn"
    using all by (simp add: takeWhile_tail)
  have dw: "dropWhile (\<lambda>c. c \<noteq> CHR '':'') (rev cn @ CHR '':'' # rev sn) = CHR '':'' # rev sn"
    using all by (simp add: dropWhile_append3)
  show "parsed_contractName (parseFullyQualifiedName (getFullyQualifiedName sn cn)) = cn"
    by (simp add: parseFullyQualifiedName_def r tw Let_def)
  show "parsed_sourceName (parseFullyQualifiedName (getFullyQualifiedName sn cn)) = sn"
    by (simp add: parseFullyQualifiedName_def r dw Let_def)
qed

lemma count_list_map_ge1: "x \<in> set xs \<Longrightarrow> 1 \<le> count_list (map f xs) (f x)"
  by (induction xs) auto

lemma count_list_map_two:
  "x \<in> set xs \<Longrightarrow> y \<in> set xs \<Longrightarrow> x \<noteq> y \<Longrightarrow> f x = c \<Longrightarrow> f y = c
     \<Longrightarrow> 2 \<le> count_list (map f xs) c"
proof (induction xs)
  case Nil
  then show ?case by simp
next
  case (Cons z zs)
  show ?case
  proof (cases "x \<in> set zs \<and> y \<in> set zs")
    case True
    then have "2 \<le> count_list (map f zs) c" using Cons by blast
    then show ?thesis by simp
  next
    case False
    then consider "z = x" "y \<in> set zs" | "z = y" "x \<in> set zs"
      using Cons.prems by auto
    then show ?thesis
    proof cases
      case 1
      then have "1 \<le> count_list (map f zs) c"
        using count_list_map_ge1 [of y zs f] Cons.prems by simp
      with 1 Cons.prems show ?thesis by simp
    next
      case 2
      then have "1 \<le> count_list (map f zs) c"
        using count_list_map_ge1 [of x zs f] Cons.prems by simp
      with 2 Cons.prems show ?thesis by simp
    qed
  qed
qed

lemma never_entry_iff:
  "nm @ '': never;'' \<in> set (neverEntries names) \<longleftrightarrow> nm \<in> set (dupContractNames names)"
  by (auto simp: neverEntries_def)

lemma shared_name_is_duplicate:
  assumes "CHR '':'' \<notin> set cn" and "sn1 \<noteq> sn2"
    and "getFullyQualifiedName sn1 cn \<in> set fqns" and "getFullyQualifiedName sn2 cn \<in> set fqns"
  shows "cn \<in> set (dupContractNames (contractNamesOf fqns))"
proof -
  let ?f = "\<lambda>fqn. parsed_contractName (parseFullyQualifiedName fqn)"
  have ne: "getFullyQualifiedName sn1 cn \<noteq> getFullyQualifiedName sn2 cn"
    using assms(2) by (simp add: getFullyQualifiedName_def)
  have "?f (getFullyQualifiedName sn1 cn) = cn" "?f (getFullyQualifiedName sn2 cn) = cn"
    using assms(1) by (simp_all add: parse_getFullyQualifiedName)
  then have "2 \<le> count_list (map ?f fqns) cn"
    using count_list_map_two [of "getFullyQualifiedName sn1 cn" fqns "getFullyQualifiedName sn2 cn" ?f cn]
      assms(3,4) ne by blast
  then show ?thesis by (simp add: dup_iff_count contractNamesOf_def)
qed


lemma join_map_text:
  "join sep (map f xs) = (case xs of [] \<Rightarrow> [] | m # ms \<Rightarrow> f m @ concat (map (\<lambda>n. sep @ f n) ms))"
  by (cases xs) (simp_all add: join_Cons comp_def)

lemma generateArtifactsDefinition_text:
  \<open>generateArtifactsDefinition names =
     ''// This file was autogenerated by hardhat-viem, do not edit it.\<newline>'' @
     ''// prettier-ignore\<newline>'' @
     ''// tslint:disable\<newline>'' @
     ''// eslint-disable\<newline>'' @
     ''\<newline>'' @
     ''import "hardhat/types/artifacts";\<newline>'' @
     ''\<newline>'' @
     ''declare module "hardhat/types/artifacts" {\<newline>'' @
     ''  interface ArtifactsMap {\<newline>'' @
     ''    '' @
     (case dupContractNames names of
        [] \<Rightarrow> []
      | m # ms \<Rightarrow> m @ '': never;'' @ concat (map (\<lambda>n. ''\<newline>    '' @ n @ '': never;'') ms)) @
     ''\<newline>'' @
     ''  }\<newline>'' @
     ''}\<newline>''\<close>
  by (simp add: generateArtifactsDefinition_def neverEntries_def join_map_text
      AUTOGENERATED_FILE_PREFACE_def split: list.splits)

lemma generateContractDeclaration_text:
  assumes \<open>inputs a = Some ins\<close>
  shows \<open>generateContractDeclaration a isDup = Some (
     ''// This file was autogenerated by hardhat-viem, do not edit it.\<newline>'' @
     ''// prettier-ignore\<newline>'' @
     ''// tslint:disable\<newline>'' @
     ''// eslint-disable\<newline>'' @
     ''\<newline>'' @
     ''import type { Address } from "viem";\<newline>'' @
     (if ins = []
      then ''import type { GetContractReturnType } from "@nomicfoundation/hardhat-viem/types";''
      else ''import type { AbiParameterToPrimitiveType, GetContractReturnType } from "@nomicfoundation/hardhat-viem/types";'') @
     ''\<newline>'' @
     ''import "@nomicfoundation/hardhat-viem/types";\<newline>'' @
     ''\<newline>'' @
     ''export interface '' @ contractName a @ ''$Type '' @ JSON_stringify_2 (artifact_json a) @ ''\<newline>'' @
     ''\<newline>'' @
     ''declare module "@nomicfoundation/hardhat-viem/types" {\<newline>'' @
     ''  '' @
     (if isDup
      then deployContractDeclaration (constructorArgs ins) (contractTypeName a)
             (sourceName a @ '':'' @ contractName a)
      else deployContractDeclaration (constructorArgs ins) (contractTypeName a) (contractName a) @
           ''\<newline>  '' @
           deployContractDeclaration (constructorArgs ins) (contractTypeName a)
             (sourceName a @ '':'' @ contractName a)) @
     ''\<newline>'' @
     ''\<newline>'' @
     ''  '' @
     (if isDup
      then getContractAtDeclaration (contractTypeName a) (sourceName a @ '':'' @ contractName a)
      else getContractAtDeclaration (contractTypeName a) (contractName a) @
           ''\<newline>  '' @
           getContractAtDeclaration (contractTypeName a) (sourceName a @ '':'' @ contractName a)) @
     ''\<newline>'' @
     ''}\<newline>'')\<close>
  using assms
  by (simp add: generateContractDeclaration_def declarationText_def validNames_def Let_def
      getFullyQualifiedName_def AUTOGENERATED_FILE_PREFACE_def contractTypeName_def)

lemma inputs_exampleToken:
  "inputs exampleToken = Some [\<lparr> input_name = ''supply'', input_type = ''uint256'' \<rparr>,
                               \<lparr> input_name = ''owner'', input_type = ''address'' \<rparr>]"
  by (simp add: inputs_def constructorAbi_def exampleToken_def property_def)

lemma constructorArgs_exampleToken:
  \<open>constructorArgs [\<lparr> input_name = ''supply'', input_type = ''uint256'' \<rparr>,
                    \<lparr> input_name = ''owner'', input_type = ''address'' \<rparr>]
     = ''constructorArgs: [AbiParameterToPrimitiveType<{"name":"supply","type":"uint256"}>, '' @
       ''AbiParameterToPrimitiveType<{"name":"owner","type":"address"}>]''\<close>
  by (simp add: constructorArgs_def parameterType_def JSON_stringify_def quote_def escape_char_def)


text \<open>
  C2: take an artifact \<open>a\<close> with the bare name \<open>cn\<close> and the qualified name \<open>qn\<close> among
  the compiled contracts. \<open>head\<close> is the text up to the opening of the module block,
  \<open>deploy\<close> and \<open>getAt\<close> are the two signatures for a name, and \<open>aggregate marked\<close> is the
  global aggregate file with one entry \<open>name: never;\<close> for each name of \<open>marked\<close>.
  When an artifact of another source file has the same bare name, the declaration
  generated for \<open>a\<close> (the duplicate flag is true) is \<open>head\<close> followed by one
  \<open>deployContract\<close> and one \<open>getContractAt\<close> signature, both for the qualified name, and
  the global aggregate marks \<open>cn\<close>. When the bare name occurs once among the contract
  names, the module block holds the two signatures for the bare name and for the
  qualified name, and the global aggregate does not mark \<open>cn\<close>. In both cases the
  aggregate marks exactly the names that occur more than once.
\<close>

theorem duplicate_names_use_qualified_name_only:
  assumes \<open>inputs a = Some ins\<close> and \<open>contractName a = cn\<close> and \<open>CHR '':'' \<notin> set cn\<close>
    and \<open>qn = sourceName a @ '':'' @ cn\<close>
    and \<open>qn \<in> set fqns\<close>
    and \<open>readArtifact qn = a\<close>
    and \<open>head =
       ''// This file was autogenerated by hardhat-viem, do not edit it.\<newline>'' @
       ''// prettier-ignore\<newline>'' @
       ''// tslint:disable\<newline>'' @
       ''// eslint-disable\<newline>'' @
       ''\<newline>'' @
       ''import type { Address } from "viem";\<newline>'' @
       (if ins = []
        then ''import type { GetContractReturnType } from "@nomicfoundation/hardhat-viem/types";''
        else ''import type { AbiParameterToPrimitiveType, GetContractReturnType } from "@nomicfoundation/hardhat-viem/types";'') @
       ''\<newline>'' @
       ''import "@nomicfoundation/hardhat-viem/types";\<newline>'' @
       ''\<newline>'' @
       ''export interface '' @ cn @ ''$Type '' @ JSON_stringify_2 (artifact_json a) @ ''\<newline>'' @
       ''\<newline>'' @
       ''declare module "@nomicfoundation/hardhat-viem/types" {\<newline>'' @
       ''  ''\<close>
    and \<open>deploy = (\<lambda>nm.
       ''export function deployContract(\<newline>    contractName: "'' @ nm @ ''",\<newline>    '' @
       constructorArgs ins @
       '',\<newline>    config?: DeployContractConfig\<newline>  ): Promise<GetContractReturnType<'' @
       cn @ ''$Type["abi"]>>;'')\<close>
    and \<open>getAt = (\<lambda>nm.
       ''export function getContractAt(\<newline>    contractName: "'' @ nm @ ''",\<newline>'' @
       ''    address: Address,\<newline>    config?: GetContractAtConfig\<newline>'' @
       ''  ): Promise<GetContractReturnType<'' @ cn @ ''$Type["abi"]>>;'')\<close>
    and \<open>aggregate = (\<lambda>marked.
       ''// This file was autogenerated by hardhat-viem, do not edit it.\<newline>'' @
       ''// prettier-ignore\<newline>'' @
       ''// tslint:disable\<newline>'' @
       ''// eslint-disable\<newline>'' @
       ''\<newline>'' @
       ''import "hardhat/types/artifacts";\<newline>'' @
       ''\<newline>'' @
       ''declare module "hardhat/types/artifacts" {\<newline>'' @
       ''  interface ArtifactsMap {\<newline>'' @
       ''    '' @
       (case marked of
          [] \<Rightarrow> []
        | m # ms \<Rightarrow> m @ '': never;'' @ concat (map (\<lambda>n. ''\<newline>    '' @ n @ '': never;'') ms)) @
       ''\<newline>'' @
       ''  }\<newline>'' @
       ''}\<newline>'')\<close>
  shows \<open>((\<exists>sn2. sn2 \<noteq> sourceName a \<and> sn2 @ '':'' @ cn \<in> set fqns) \<longrightarrow>
            generateContractDeclaration a True
              = Some (head @ deploy qn @ ''\<newline>\<newline>  '' @ getAt qn @ ''\<newline>}\<newline>'')
            \<and> emittedDeclaration readArtifact fqns (sourceName a) cn
                = generateContractDeclaration a True
            \<and> (\<exists>marked. generateArtifactsDefinition (contractNamesOf fqns) = aggregate marked
                  \<and> (\<forall>n. n \<in> set marked \<longleftrightarrow> 2 \<le> count_list (contractNamesOf fqns) n)
                  \<and> cn \<in> set marked))
        \<and> (count_list (contractNamesOf fqns) cn = 1 \<longrightarrow>
            generateContractDeclaration a False
              = Some (head @ deploy cn @ ''\<newline>  '' @ deploy qn @ ''\<newline>\<newline>  '' @
                      getAt cn @ ''\<newline>  '' @ getAt qn @ ''\<newline>}\<newline>'')
            \<and> emittedDeclaration readArtifact fqns (sourceName a) cn
                = generateContractDeclaration a False
            \<and> (\<exists>marked. generateArtifactsDefinition (contractNamesOf fqns) = aggregate marked
                  \<and> (\<forall>n. n \<in> set marked \<longleftrightarrow> 2 \<le> count_list (contractNamesOf fqns) n)
                  \<and> cn \<notin> set marked))\<close>
proof -
  let ?names = "contractNamesOf fqns"
  have q: "getFullyQualifiedName (sourceName a) cn = qn"
    by (simp add: getFullyQualifiedName_def assms(4))
  have emitted: "emittedDeclaration readArtifact fqns (sourceName a) cn
      = generateContractDeclaration a (array_includes (dupContractNames ?names) cn)"
    by (simp only: emittedDeclaration_def Let_def q assms(6))
  have agg: "generateArtifactsDefinition ?names = aggregate (dupContractNames ?names)"
    unfolding assms(10) generateArtifactsDefinition_text by (rule refl)
  have marked: "\<forall>n. n \<in> set (dupContractNames ?names) \<longleftrightarrow> 2 \<le> count_list ?names n"
    by (simp add: dup_iff_count)
  have text_dup: \<open>generateContractDeclaration a True
      = Some (head @ deploy qn @ ''\<newline>\<newline>  '' @ getAt qn @ ''\<newline>}\<newline>'')\<close>
    unfolding generateContractDeclaration_text [OF assms(1)] assms(7,8,9)
    by (simp add: assms(2) assms(4) deployContractDeclaration_def getContractAtDeclaration_def
        contractTypeName_def)
  have text_unique: \<open>generateContractDeclaration a False
      = Some (head @ deploy cn @ ''\<newline>  '' @ deploy qn @ ''\<newline>\<newline>  '' @
              getAt cn @ ''\<newline>  '' @ getAt qn @ ''\<newline>}\<newline>'')\<close>
    unfolding generateContractDeclaration_text [OF assms(1)] assms(7,8,9)
    by (simp add: assms(2) assms(4) deployContractDeclaration_def getContractAtDeclaration_def
        contractTypeName_def)
  have shared: "cn \<in> set (dupContractNames ?names)"
    if other: "\<exists>sn2. sn2 \<noteq> sourceName a \<and> sn2 @ '':'' @ cn \<in> set fqns"
  proof -
    from other obtain sn2 where ne': "sn2 \<noteq> sourceName a" and mem: "sn2 @ '':'' @ cn \<in> set fqns"
      by (elim exE conjE)
    from ne' have ne: "sourceName a \<noteq> sn2" by (rule not_sym)
    have m1: "getFullyQualifiedName (sourceName a) cn \<in> set fqns"
      using assms(5) by (simp only: q)
    have m2: "getFullyQualifiedName sn2 cn \<in> set fqns"
      using mem by (simp add: getFullyQualifiedName_def)
    show ?thesis by (rule shared_name_is_duplicate [OF assms(3) ne m1 m2])
  qed
  have single: "cn \<notin> set (dupContractNames ?names)"
    if once: "count_list ?names cn = 1"
    using once by (simp add: dup_iff_count)
  have A: \<open>generateContractDeclaration a True
              = Some (head @ deploy qn @ ''\<newline>\<newline>  '' @ getAt qn @ ''\<newline>}\<newline>'')
            \<and> emittedDeclaration readArtifact fqns (sourceName a) cn
                = generateContractDeclaration a True
            \<and> (\<exists>marked. generateArtifactsDefinition ?names = aggregate marked
                  \<and> (\<forall>n. n \<in> set marked \<longleftrightarrow> 2 \<le> count_list ?names n)
                  \<and> cn \<in> set marked)\<close>
    if other: "\<exists>sn2. sn2 \<noteq> sourceName a \<and> sn2 @ '':'' @ cn \<in> set fqns"
  proof (intro conjI)
    show \<open>generateContractDeclaration a True
              = Some (head @ deploy qn @ ''\<newline>\<newline>  '' @ getAt qn @ ''\<newline>}\<newline>'')\<close>
      by (rule text_dup)
    show "emittedDeclaration readArtifact fqns (sourceName a) cn = generateContractDeclaration a True"
      using shared [OF other] by (simp add: emitted array_includes_def)
    show "\<exists>marked. generateArtifactsDefinition ?names = aggregate marked
                  \<and> (\<forall>n. n \<in> set marked \<longleftrightarrow> 2 \<le> count_list ?names n)
                  \<and> cn \<in> set marked"
      using agg marked shared [OF other] by blast
  qed
  have B: \<open>generateContractDeclaration a False
              = Some (head @ deploy cn @ ''\<newline>  '' @ deploy qn @ ''\<newline>\<newline>  '' @
                      getAt cn @ ''\<newline>  '' @ getAt qn @ ''\<newline>}\<newline>'')
            \<and> emittedDeclaration readArtifact fqns (sourceName a) cn
                = generateContractDeclaration a False
            \<and> (\<exists>marked. generateArtifactsDefinition ?names = aggregate marked
                  \<and> (\<forall>n. n \<in> set marked \<longleftrightarrow> 2 \<le> count_list ?names n)
                  \<and> cn \<notin> set marked)\<close>
    if once: "count_list ?names cn = 1"
  proof (intro conjI)
    show \<open>generateContractDeclaration a False
              = Some (head @ deploy cn @ ''\<newline>  '' @ deploy qn @ ''\<newline>\<newline>  '' @
                      getAt cn @ ''\<newline>  '' @ getAt qn @ ''\<newline>}\<newline>'')\<close>
      by (rule text_unique)
    show "emittedDeclaration readArtifact fqns (sourceName a) cn = generateContractDeclaration a False"
      using single [OF once] by (simp add: emitted array_includes_def)
    show "\<exists>marked. generateArtifactsDefinition ?names = aggregate marked
                  \<and> (\<forall>n. n \<in> set marked \<longleftrightarrow> 2 \<le> count_list ?names n)
                  \<and> cn \<notin> set marked"
      using agg marked single [OF once] by blast
  qed
  from A B show ?thesis by (iprover intro: conjI impI)
qed

theorem duplicate_names_example:
  \<open>(\<exists>json.
      emittedDeclaration (\<lambda>fqn. exampleToken)
        [''contracts/Token.sol:Token'', ''contracts/Lib.sol:Lib'', ''legacy/Token.sol:Token'']
        ''contracts/Token.sol'' ''Token''
      = Some (
        ''// This file was autogenerated by hardhat-viem, do not edit it.\<newline>'' @
        ''// prettier-ignore\<newline>'' @
        ''// tslint:disable\<newline>'' @
        ''// eslint-disable\<newline>'' @
        ''\<newline>'' @
        ''import type { Address } from "viem";\<newline>'' @
        ''import type { AbiParameterToPrimitiveType, GetContractReturnType } from "@nomicfoundation/hardhat-viem/types";\<newline>'' @
        ''import "@nomicfoundation/hardhat-viem/types";\<newline>'' @
        ''\<newline>'' @
        ''export interface Token$Type '' @ json @ ''\<newline>'' @
        ''\<newline>'' @
        ''declare module "@nomicfoundation/hardhat-viem/types" {\<newline>'' @
        ''  export function deployContract(\<newline>'' @
        ''    contractName: "contracts/Token.sol:Token",\<newline>'' @
        ''    constructorArgs: [AbiParameterToPrimitiveType<{"name":"supply","type":"uint256"}>, '' @
        ''AbiParameterToPrimitiveType<{"name":"owner","type":"address"}>],\<newline>'' @
        ''    config?: DeployContractConfig\<newline>'' @
        ''  ): Promise<GetContractReturnType<Token$Type["abi"]>>;\<newline>'' @
        ''\<newline>'' @
        ''  export function getContractAt(\<newline>'' @
        ''    contractName: "contracts/Token.sol:Token",\<newline>'' @
        ''    address: Address,\<newline>'' @
        ''    config?: GetContractAtConfig\<newline>'' @
        ''  ): Promise<GetContractReturnType<Token$Type["abi"]>>;\<newline>'' @
        ''}\<newline>''))
   \<and> generateArtifactsDefinition (contractNamesOf
        [''contracts/Token.sol:Token'', ''contracts/Lib.sol:Lib'', ''legacy/Token.sol:Token''])
      =
        ''// This file was autogenerated by hardhat-viem, do not edit it.\<newline>'' @
        ''// prettier-ignore\<newline>'' @
        ''// tslint:disable\<newline>'' @
        ''// eslint-disable\<newline>'' @
        ''\<newline>'' @
        ''import "hardhat/types/artifacts";\<newline>'' @
        ''\<newline>'' @
        ''declare module "hardhat/types/artifacts" {\<newline>'' @
        ''  interface ArtifactsMap {\<newline>'' @
        ''    Token: never;\<newline>'' @
        ''  }\<newline>'' @
        ''}\<newline>''
   \<and> (\<exists>json.
      emittedDeclaration (\<lambda>fqn. exampleToken)
        [''contracts/Token.sol:Token'', ''contracts/Lib.sol:Lib'']
        ''contracts/Token.sol'' ''Token''
      = Some (
        ''// This file was autogenerated by hardhat-viem, do not edit it.\<newline>'' @
        ''// prettier-ignore\<newline>'' @
        ''// tslint:disable\<newline>'' @
        ''// eslint-disable\<newline>'' @
        ''\<newline>'' @
        ''import type { Address } from "viem";\<newline>'' @
        ''import type { AbiParameterToPrimitiveType, GetContractReturnType } from "@nomicfoundation/hardhat-viem/types";\<newline>'' @
        ''import "@nomicfoundation/hardhat-viem/types";\<newline>'' @
        ''\<newline>'' @
        ''export interface Token$Type '' @ json @ ''\<newline>'' @
        ''\<newline>'' @
        ''declare module "@nomicfoundation/hardhat-viem/types" {\<newline>'' @
        ''  export function deployContract(\<newline>'' @
        ''    contractName: "Token",\<newline>'' @
        ''    constructorArgs: [AbiParameterToPrimitiveType<{"name":"supply","type":"uint256"}>, '' @
        ''AbiParameterToPrimitiveType<{"name":"owner","type":"address"}>],\<newline>'' @
        ''    config?: DeployContractConfig\<newline>'' @
        ''  ): Promise<GetContractReturnType<Token$Type["abi"]>>;\<newline>'' @
        ''  export function deployContract(\<newline>'' @
        ''    contractName: "contracts/Token.sol:Token",\<newline>'' @
        ''    constructorArgs: [AbiParameterToPrimitiveType<{"name":"supply","type":"uint256"}>, '' @
        ''AbiParameterToPrimitiveType<{"name":"owner","type":"address"}>],\<newline>'' @
        ''    config?: DeployContractConfig\<newline>'' @
        ''  ): Promise<GetContractReturnType<Token$Type["abi"]>>;\<newline>'' @
        ''\<newline>'' @
        ''  export function getContractAt(\<newline>'' @
        ''    contractName: "Token",\<newline>'' @
        ''    address: Address,\<newline>'' @
        ''    config?: GetContractAtConfig\<newline>'' @
        ''  ): Promise<GetContractReturnType<Token$Type["abi"]>>;\<newline>'' @
        ''  export function getContractAt(\<newline>'' @
        ''    contractName: "contracts/Token.sol:Token",\<newline>'' @
        ''    address: Address,\<newline>'' @
        ''    config?: GetContractAtConfig\<newline>'' @
        ''  ): Promise<GetContractReturnType<Token$Type["abi"]>>;\<newline>'' @
        ''}\<newline>''))
   \<and> generateArtifactsDefinition (contractNamesOf
        [''contracts/Token.sol:Token'', ''contracts/Lib.sol:Lib''])
      =
        ''// This file was autogenerated by hardhat-viem, do not edit it.\<newline>'' @
        ''// prettier-ignore\<newline>'' @
        ''// tslint:disable\<newline>'' @
        ''// eslint-disable\<newline>'' @
        ''\<newline>'' @
        ''import "hardhat/types/artifacts";\<newline>'' @
        ''\<newline>'' @
        ''declare module "hardhat/types/artifacts" {\<newline>'' @
        ''  interface ArtifactsMap {\<newline>'' @
        ''    \<newline>'' @
        ''  }\<newline>'' @
        ''}\<newline>''\<close>
proof -
  let ?two = "[''contracts/Token.sol:Token'', ''contracts/Lib.sol:Lib'', ''legacy/Token.sol:Token'']"
  let ?one = "[''contracts/Token.sol:Token'', ''contracts/Lib.sol:Lib'']"
  have cn: "contractName exampleToken = ''Token''"
    and sn: "sourceName exampleToken = ''contracts/Token.sol''"
    by (simp_all add: exampleToken_def)
  have colon: "CHR '':'' \<notin> set ''Token''" by simp
  have qn: "''contracts/Token.sol:Token'' = sourceName exampleToken @ '':'' @ ''Token''"
    by (simp add: sn)
  have in2: "''contracts/Token.sol:Token'' \<in> set ?two" and in1: "''contracts/Token.sol:Token'' \<in> set ?one"
    by simp_all
  have rd: "(\<lambda>fqn. exampleToken) ''contracts/Token.sol:Token'' = exampleToken" by simp
  have other: "\<exists>sn2. sn2 \<noteq> sourceName exampleToken \<and> sn2 @ '':'' @ ''Token'' \<in> set ?two"
    by (rule exI [of _ "''legacy/Token.sol''"]) (simp add: sn)
  have names2: "contractNamesOf ?two = [''Token'', ''Lib'', ''Token'']"
    and names1: "contractNamesOf ?one = [''Token'', ''Lib'']"
    by (simp_all add: contractNamesOf_def parseFullyQualifiedName_def)
  have once: "count_list (contractNamesOf ?one) ''Token'' = 1"
    by (simp add: names1)
  note T2 = duplicate_names_use_qualified_name_only
      [OF inputs_exampleToken cn colon qn in2 rd refl refl refl refl, THEN conjunct1, THEN mp, OF other]
  note T1 = duplicate_names_use_qualified_name_only
      [OF inputs_exampleToken cn colon qn in1 rd refl refl refl refl, THEN conjunct2, THEN mp, OF once]
  have E2: \<open>emittedDeclaration (\<lambda>fqn. exampleToken) ?two ''contracts/Token.sol'' ''Token''
      = Some (
        ''// This file was autogenerated by hardhat-viem, do not edit it.\<newline>'' @
        ''// prettier-ignore\<newline>'' @
        ''// tslint:disable\<newline>'' @
        ''// eslint-disable\<newline>'' @
        ''\<newline>'' @
        ''import type { Address } from "viem";\<newline>'' @
        ''import type { AbiParameterToPrimitiveType, GetContractReturnType } from "@nomicfoundation/hardhat-viem/types";\<newline>'' @
        ''import "@nomicfoundation/hardhat-viem/types";\<newline>'' @
        ''\<newline>'' @
        ''export interface Token$Type '' @ JSON_stringify_2 (artifact_json exampleToken) @ ''\<newline>'' @
        ''\<newline>'' @
        ''declare module "@nomicfoundation/hardhat-viem/types" {\<newline>'' @
        ''  export function deployContract(\<newline>'' @
        ''    contractName: "contracts/Token.sol:Token",\<newline>'' @
        ''    constructorArgs: [AbiParameterToPrimitiveType<{"name":"supply","type":"uint256"}>, '' @
        ''AbiParameterToPrimitiveType<{"name":"owner","type":"address"}>],\<newline>'' @
        ''    config?: DeployContractConfig\<newline>'' @
        ''  ): Promise<GetContractReturnType<Token$Type["abi"]>>;\<newline>'' @
        ''\<newline>'' @
        ''  export function getContractAt(\<newline>'' @
        ''    contractName: "contracts/Token.sol:Token",\<newline>'' @
        ''    address: Address,\<newline>'' @
        ''    config?: GetContractAtConfig\<newline>'' @
        ''  ): Promise<GetContractReturnType<Token$Type["abi"]>>;\<newline>'' @
        ''}\<newline>'')\<close>
    using T2 by (simp add: sn constructorArgs_exampleToken)
  have E1: \<open>emittedDeclaration (\<lambda>fqn. exampleToken) ?one ''contracts/Token.sol'' ''Token''
      = Some (
        ''// This file was autogenerated by hardhat-viem, do not edit it.\<newline>'' @
        ''// prettier-ignore\<newline>'' @
        ''// tslint:disable\<newline>'' @
        ''// eslint-disable\<newline>'' @
        ''\<newline>'' @
        ''import type { Address } from "viem";\<newline>'' @
        ''import type { AbiParameterToPrimitiveType, GetContractReturnType } from "@nomicfoundation/hardhat-viem/types";\<newline>'' @
        ''import "@nomicfoundation/hardhat-viem/types";\<newline>'' @
        ''\<newline>'' @
        ''export interface Token$Type '' @ JSON_stringify_2 (artifact_json exampleToken) @ ''\<newline>'' @
        ''\<newline>'' @
        ''declare module "@nomicfoundation/hardhat-viem/types" {\<newline>'' @
        ''  export function deployContract(\<newline>'' @
        ''    contractName: "Token",\<newline>'' @
        ''    constructorArgs: [AbiParameterToPrimitiveType<{"name":"supply","type":"uint256"}>, '' @
        ''AbiParameterToPrimitiveType<{"name":"owner","type":"address"}>],\<newline>'' @
        ''    config?: DeployContractConfig\<newline>'' @
        ''  ): Promise<GetContractReturnType<Token$Type["abi"]>>;\<newline>'' @
        ''  export function deployContract(\<newline>'' @
        ''    contractName: "contracts/Token.sol:Token",\<newline>'' @
        ''    constructorArgs: [AbiParameterToPrimitiveType<{"name":"supply","type":"uint256"}>, '' @
        ''AbiParameterToPrimitiveType<{"name":"owner","type":"address"}>],\<newline>'' @
        ''    config?: DeployContractConfig\<newline>'' @
        ''  ): Promise<GetContractReturnType<Token$Type["abi"]>>;\<newline>'' @
        ''\<newline>'' @
        ''  export function getContractAt(\<newline>'' @
        ''    contractName: "Token",\<newline>'' @
        ''    address: Address,\<newline>'' @
        ''    config?: GetContractAtConfig\<newline>'' @
        ''  ): Promise<GetContractReturnType<Token$Type["abi"]>>;\<newline>'' @
        ''  export function getContractAt(\<newline>'' @
        ''    contractName: "contracts/Token.sol:Token",\<newline>'' @
        ''    address: Address,\<newline>'' @
        ''    config?: GetContractAtConfig\<newline>'' @
        ''  ): Promise<GetContractReturnType<Token$Type["abi"]>>;\<newline>'' @
        ''}\<newline>'')\<close>
    using T1 by (simp add: sn constructorArgs_exampleToken)
  have A2: \<open>generateArtifactsDefinition (contractNamesOf ?two) =
        ''// This file was autogenerated by hardhat-viem, do not edit it.\<newline>'' @
        ''// prettier-ignore\<newline>'' @
        ''// tslint:disable\<newline>'' @
        ''// eslint-disable\<newline>'' @
        ''\<newline>'' @
        ''import "hardhat/types/artifacts";\<newline>'' @
        ''\<newline>'' @
        ''declare module "hardhat/types/artifacts" {\<newline>'' @
        ''  interface ArtifactsMap {\<newline>'' @
        ''    Token: never;\<newline>'' @
        ''  }\<newline>'' @
        ''}\<newline>''\<close>
    unfolding names2
    by (simp add: generateArtifactsDefinition_text dupContractNames_def filter_indexed_def indexOf_def)
  have A1: \<open>generateArtifactsDefinition (contractNamesOf ?one) =
        ''// This file was autogenerated by hardhat-viem, do not edit it.\<newline>'' @
        ''// prettier-ignore\<newline>'' @
        ''// tslint:disable\<newline>'' @
        ''// eslint-disable\<newline>'' @
        ''\<newline>'' @
        ''import "hardhat/types/artifacts";\<newline>'' @
        ''\<newline>'' @
        ''declare module "hardhat/types/artifacts" {\<newline>'' @
        ''  interface ArtifactsMap {\<newline>'' @
        ''    \<newline>'' @
        ''  }\<newline>'' @
        ''}\<newline>''\<close>
    unfolding names1
    by (simp add: generateArtifactsDefinition_text dupContractNames_def filter_indexed_def indexOf_def)
  from E2 have X2: \<open>\<exists>json.
      emittedDeclaration (\<lambda>fqn. exampleToken) ?two ''contracts/Token.sol'' ''Token''
      = Some (
        ''// This file was autogenerated by hardhat-viem, do not edit it.\<newline>'' @
        ''// prettier-ignore\<newline>'' @
        ''// tslint:disable\<newline>'' @
        ''// eslint-disable\<newline>'' @
        ''\<newline>'' @
        ''import type { Address } from "viem";\<newline>'' @
        ''import type { AbiParameterToPrimitiveType, GetContractReturnType } from "@nomicfoundation/hardhat-viem/types";\<newline>'' @
        ''import "@nomicfoundation/hardhat-viem/types";\<newline>'' @
        ''\<newline>'' @
        ''export interface Token$Type '' @ json @ ''\<newline>'' @
        ''\<newline>'' @
        ''declare module "@nomicfoundation/hardhat-viem/types" {\<newline>'' @
        ''  export function deployContract(\<newline>'' @
        ''    contractName: "contracts/Token.sol:Token",\<newline>'' @
        ''    constructorArgs: [AbiParameterToPrimitiveType<{"name":"supply","type":"uint256"}>, '' @
        ''AbiParameterToPrimitiveType<{"name":"owner","type":"address"}>],\<newline>'' @
        ''    config?: DeployContractConfig\<newline>'' @
        ''  ): Promise<GetContractReturnType<Token$Type["abi"]>>;\<newline>'' @
        ''\<newline>'' @
        ''  export function getContractAt(\<newline>'' @
        ''    contractName: "contracts/Token.sol:Token",\<newline>'' @
        ''    address: Address,\<newline>'' @
        ''    config?: GetContractAtConfig\<newline>'' @
        ''  ): Promise<GetContractReturnType<Token$Type["abi"]>>;\<newline>'' @
        ''}\<newline>'')\<close>
    by (intro exI)
  from E1 have X1: \<open>\<exists>json.
      emittedDeclaration (\<lambda>fqn. exampleToken) ?one ''contracts/Token.sol'' ''Token''
      = Some (
        ''// This file was autogenerated by hardhat-viem, do not edit it.\<newline>'' @
        ''// prettier-ignore\<newline>'' @
        ''// tslint:disable\<newline>'' @
        ''// eslint-disable\<newline>'' @
        ''\<newline>'' @
        ''import type { Address } from "viem";\<newline>'' @
        ''import type { AbiParameterToPrimitiveType, GetContractReturnType } from "@nomicfoundation/hardhat-viem/types";\<newline>'' @
        ''import "@nomicfoundation/hardhat-viem/types";\<newline>'' @
        ''\<newline>'' @
        ''export interface Token$Type '' @ json @ ''\<newline>'' @
        ''\<newline>'' @
        ''declare module "@nomicfoundation/hardhat-viem/types" {\<newline>'' @
        ''  export function deployContract(\<newline>'' @
        ''    contractName: "Token",\<newline>'' @
        ''    constructorArgs: [AbiParameterToPrimitiveType<{"name":"supply","type":"uint256"}>, '' @
        ''AbiParameterToPrimitiveType<{"name":"owner","type":"address"}>],\<newline>'' @
        ''    config?: DeployContractConfig\<newline>'' @
        ''  ): Promise<GetContractReturnType<Token$Type["abi"]>>;\<newline>'' @
        ''  export function deployContract(\<newline>'' @
        ''    contractName: "contracts/Token.sol:Token",\<newline>'' @
        ''    constructorArgs: [AbiParameterToPrimitiveType<{"name":"supply","type":"uint256"}>, '' @
        ''AbiParameterToPrimitiveType<{"name":"owner","type":"address"}>],\<newline>'' @
        ''    config?: DeployContractConfig\<newline>'' @
        ''  ): Promise<GetContractReturnType<Token$Type["abi"]>>;\<newline>'' @
        ''\<newline>'' @
        ''  export function getContractAt(\<newline>'' @
        ''    contractName: "Token",\<newline>'' @
        ''    address: Address,\<newline>'' @
        ''    config?: GetContractAtConfig\<newline>'' @
        ''  ): Promise<GetContractReturnType<Token$Type["abi"]>>;\<newline>'' @
        ''  export function getContractAt(\<newline>'' @
        ''    contractName: "contracts/Token.sol:Token",\<newline>'' @
        ''    address: Address,\<newline>'' @
        ''    config?: GetContractAtConfig\<newline>'' @
        ''  ): Promise<GetContractReturnType<Token$Type["abi"]>>;\<newline>'' @
        ''}\<newline>'')\<close>
    by (intro exI)
  from X2 A2 X1 A1 show ?thesis by (intro conjI)
qed


section \<open>The stale-output pruner\<close>

lemma fold_pruneStep:
  "fold (pruneStep ap ex) ds fs =
     filter (\<lambda>f. \<forall>d \<in> set ds. relative ap (dirname d) \<notin> ex
                     \<longrightarrow> f \<noteq> dirname d \<and> \<not> isBelow (dirname d) f) fs"
proof (induction ds arbitrary: fs)
  case Nil
  then show ?case by simp
next
  case (Cons d ds)
  show ?case
  proof (cases "relative ap (dirname d) \<in> ex")
    case True
    then show ?thesis using Cons.IH [of fs] by (simp add: pruneStep_def Let_def)
  next
    case False
    then have "fold (pruneStep ap ex) (d # ds) fs = fold (pruneStep ap ex) ds (rm (dirname d) fs)"
      by (simp add: pruneStep_def Let_def)
    also have "\<dots> = filter (\<lambda>f. \<forall>d \<in> set ds. relative ap (dirname d) \<notin> ex
                     \<longrightarrow> f \<noteq> dirname d \<and> \<not> isBelow (dirname d) f) (rm (dirname d) fs)"
      by (rule Cons.IH)
    also have "\<dots> = filter (\<lambda>f. \<forall>d \<in> set (d # ds). relative ap (dirname d) \<notin> ex
                     \<longrightarrow> f \<noteq> dirname d \<and> \<not> isBelow (dirname d) f) fs"
      using False by (auto simp: rm_def intro: filter_cong)
    finally show ?thesis .
  qed
qed

text \<open>
  What the pruner does with the directories it discovers: a file stays exactly when
  it is not, and is not below, the directory of a discovered marker whose source name
  has gone. Removing twice, or removing what is not there, changes nothing and
  raises nothing.
\<close>

lemma removeObsoleteArtifacts_eq:
  "removeObsoleteArtifacts ap fqns fs =
     filter (\<lambda>f. \<forall>d \<in> set (getAllFilesMatching ap (\<lambda>f. endsWith f ''file.d.ts'') fs).
                   relative ap (dirname d) \<notin> existingSourceFiles fqns
                     \<longrightarrow> f \<noteq> dirname d \<and> \<not> isBelow (dirname d) f) fs"
  by (simp add: removeObsoleteArtifacts_def fold_pruneStep)

lemma rm_missing: "target \<notin> set fs \<Longrightarrow> \<forall>f \<in> set fs. \<not> isBelow target f \<Longrightarrow> rm target fs = fs"
  by (auto simp: rm_def filter_id_conv)

lemma pruner_with_marker_example:
  "removeObsoleteArtifacts ''/project/artifacts''
       [''contracts/X.sol:X'', ''contracts/Y.sol:Y'']
       [''/project/artifacts/contracts/X.sol/file.d.ts'', ''/project/artifacts/contracts/X.sol/X.d.ts'',
        ''/project/artifacts/contracts/Z.sol/file.d.ts'', ''/project/artifacts/contracts/Z.sol/Z.d.ts'']
   = [''/project/artifacts/contracts/X.sol/file.d.ts'', ''/project/artifacts/contracts/X.sol/X.d.ts'']"
  by code_simp

text \<open>
  The paths the emit step writes never end in \<open>file.d.ts\<close>, unless a contract's own
  name ends in \<open>file\<close>; so the pruner discovers none of the directories the emit
  step has generated and removes nothing from them, whatever is still compiled.
\<close>

lemma endsWith_iff: "endsWith s x \<longleftrightarrow> (\<exists>p. s = p @ x)"
proof
  assume e: "endsWith s x"
  have "s = take (length s - length x) s @ drop (length s - length x) s" by simp
  with e have "s = take (length s - length x) s @ x" by (simp add: endsWith_def)
  then show "\<exists>p. s = p @ x" by blast
next
  assume "\<exists>p. s = p @ x"
  then obtain p where "s = p @ x" by blast
  then show "endsWith s x" by (simp add: endsWith_def)
qed

lemma contract_file_is_no_marker:
  assumes "\<not> endsWith cn ''file''"
  shows "\<not> endsWith (path_join d (cn @ ''.d.ts'')) ''file.d.ts''"
proof
  assume "endsWith (path_join d (cn @ ''.d.ts'')) ''file.d.ts''"
  then obtain p where "d @ ''/'' @ cn @ ''.d.ts'' = p @ ''file.d.ts''"
    by (auto simp: endsWith_iff path_join_def)
  then have "(d @ ''/'' @ cn) @ ''.d.ts'' = (p @ ''file'') @ ''.d.ts''" by simp
  then have "d @ ''/'' @ cn = p @ ''file''" by (simp only: append_same_eq)
  then have "(d @ ''/'') @ cn = p @ ''file''" by simp
  then obtain us where "(d @ ''/'' = p @ us \<and> us @ cn = ''file'') \<or> ((d @ ''/'') @ us = p \<and> cn = us @ ''file'')"
    unfolding append_eq_append_conv2 by blast
  then show False
  proof
    assume a: "d @ ''/'' = p @ us \<and> us @ cn = ''file''"
    show False
    proof (cases "us = []")
      case True
      with a have "cn = [] @ ''file''" by simp
      then have "endsWith cn ''file''" unfolding endsWith_iff by blast
      with assms show False by simp
    next
      case False
      with a have "last us = CHR ''/''" by (metis last_appendR snoc_eq_iff_butlast)
      with False have "CHR ''/'' \<in> set us" by (metis last_in_set)
      then have "CHR ''/'' \<in> set (us @ cn)" by simp
      with a show False by simp
    qed
  next
    assume "(d @ ''/'') @ us = p \<and> cn = us @ ''file''"
    then have "endsWith cn ''file''" unfolding endsWith_iff by blast
    with assms show False by simp
  qed
qed

lemma aggregate_file_is_no_marker:
  "\<not> endsWith (path_join d ''artifacts.d.ts'') ''file.d.ts''"
  by (simp add: endsWith_def path_join_def)

lemma emitted_paths_hold_no_marker:
  assumes "\<forall>(sn, cns) \<in> set emitted. \<forall>cn \<in> set cns. \<not> endsWith cn ''file''"
  shows "\<forall>f \<in> set (emittedPaths ap emitted). \<not> endsWith f ''file.d.ts''"
  using assms
  by (auto simp: emittedPaths_def Let_def contract_file_is_no_marker aggregate_file_is_no_marker)

lemma generated_directories_are_never_pruned:
  assumes "\<forall>(sn, cns) \<in> set emitted. \<forall>cn \<in> set cns. \<not> endsWith cn ''file''"
  shows "removeObsoleteArtifacts ap fqns (emitArtifacts ap emitted []) = emitArtifacts ap emitted []"
proof -
  have "getAllFilesMatching ap (\<lambda>f. endsWith f ''file.d.ts'') (emitArtifacts ap emitted []) = []"
    using emitted_paths_hold_no_marker [OF assms, of ap]
    by (auto simp: getAllFilesMatching_def emitArtifacts_def filter_empty_conv)
  then show ?thesis by (simp add: removeObsoleteArtifacts_def)
qed

text \<open>
  C8: the directories the emit step generates hold one \<open>.d.ts\<close> file per contract and
  \<open>artifacts.d.ts\<close>; the pruner looks for paths that end in \<open>file.d.ts\<close>. With the
  sources X and Y still compiled and Z gone, the directory generated for Z is not
  discovered and all its files are still there after the pruner has run.
\<close>

theorem obsolete_directory_survives_pruning:
  "removeObsoleteArtifacts ''/project/artifacts''
       [''contracts/X.sol:X'', ''contracts/Y.sol:Y'']
       (emitArtifacts ''/project/artifacts''
          [(''contracts/X.sol'', [''X'']), (''contracts/Y.sol'', [''Y'']),
           (''contracts/Z.sol'', [''Z''])] [])
   = [''/project/artifacts/contracts/X.sol/X.d.ts'',
      ''/project/artifacts/contracts/X.sol/artifacts.d.ts'',
      ''/project/artifacts/contracts/Y.sol/Y.d.ts'',
      ''/project/artifacts/contracts/Y.sol/artifacts.d.ts'',
      ''/project/artifacts/contracts/Z.sol/Z.d.ts'',
      ''/project/artifacts/contracts/Z.sol/artifacts.d.ts'']"
  by (simp add: removeObsoleteArtifacts_def emitArtifacts_def emittedPaths_def path_join_def
      getAllFilesMatching_def endsWith_def isBelow_def)


section \<open>The version notifier: one invocation\<close>

lemma readCache_no_release: "v3Release (readCache cf) = None"
  by (simp add: readCache_def split: option.splits json.splits)

lemma readCache_no_message: "v3ReleaseMessage (readCache cf) = None"
  by (simp add: readCache_def split: option.splits json.splits)

lemma readCache_written:
  "readCache (Some (reparse (cache_json c))) =
     \<lparr> lastCheck = lastCheck c,
       v3TimesShown = (case v3TimesShown c of Finite r \<Rightarrow> Finite r | _ \<Rightarrow> Finite 0),
       v3Release = None, v3ReleaseMessage = None \<rparr>"
  by (simp add: readCache_def cache_json_def split: lastCheck_value.splits js_number.splits)

lemma notification_unfold:
  "showNewVersionNotification lib w cf =
     (if guardActive lib w (readCache cf) then ([], cf, Returned)
      else
        (case getReleases w of
           TypeError \<Rightarrow> ([RequestReleases], cf, Threw)
         | Value releases \<Rightarrow>
             if List.find (isLatestV2 lib) releases = None \<and> getV3Release w = None
             then ([RequestReleases, RequestV3Release], cf, Returned)
             else
               (case lane2 lib w (readCache cf) (getV3Release w) of
                  (printed2, TypeError) \<Rightarrow>
                    (RequestReleases # RequestV3Release
                       # lane1 lib w (List.find (isLatestV2 lib) releases) @ printed2,
                     cf, Threw)
                | (printed2, Value cache') \<Rightarrow>
                    (RequestReleases # RequestV3Release
                       # lane1 lib w (List.find (isLatestV2 lib) releases) @ printed2
                       @ [WriteCache (cache' \<lparr> lastCheck := LastCheckString (Date_toISOString lib (now w)),
                                                v3Release := getV3Release w \<rparr>)],
                     writeCache w (cache' \<lparr> lastCheck := LastCheckString (Date_toISOString lib (now w)),
                                            v3Release := getV3Release w \<rparr>) cf,
                     Returned))))"
  by (simp add: showNewVersionNotification_def Let_def readCache_no_release
      split: result.splits prod.splits)

lemma guard_returns:
  "guardActive lib w (readCache cf) \<Longrightarrow> showNewVersionNotification lib w cf = ([], cf, Returned)"
  by (simp add: notification_unfold)

lemma no_guard_first_request:
  "\<not> guardActive lib w (readCache cf) \<Longrightarrow>
     \<exists>rest. fst (showNewVersionNotification lib w cf) = RequestReleases # rest"
  by (simp add: notification_unfold split: result.splits prod.splits)

lemma getReleases_array:
  "releasesResponse w \<noteq> ReleasesNotArray \<Longrightarrow> \<exists>releases. getReleases w = Value releases"
  by (simp add: getReleases_def split: releases_response.splits)

lemma no_guard_requests:
  "\<not> guardActive lib w (readCache cf) \<Longrightarrow> releasesResponse w \<noteq> ReleasesNotArray \<Longrightarrow>
     \<exists>rest. fst (showNewVersionNotification lib w cf) = RequestReleases # RequestV3Release # rest"
  using getReleases_array [of w]
  by (auto simp add: notification_unfold split: result.splits prod.splits)

lemma find_asset_no_null: "JNull \<notin> set as \<Longrightarrow> \<exists>a. find_asset as = Value a"
  by (induction as) auto

lemma getV3ReleaseMessage_returns:
  "isReleaseObject v \<Longrightarrow> \<exists>requests message. getV3ReleaseMessage w v = Value (requests, message)"
proof -
  assume "isReleaseObject v"
  then obtain as where a: "member v ''assets'' = Some (JArray as)" and n: "JNull \<notin> set as"
    by (auto simp: isReleaseObject_def split: option.splits json.splits)
  from find_asset_no_null [OF n] obtain x where "find_asset as = Value x" ..
  then show ?thesis using a
    by (cases x) (simp_all add: getV3ReleaseMessage_def Let_def)
qed

lemma getV3Release_wellFormed:
  "answersWellFormed w \<Longrightarrow> getV3Release w = None \<or> (\<exists>v. getV3Release w = Some v \<and> isReleaseObject v)"
  by (auto simp: answersWellFormed_def getV3Release_def split: option.splits)

lemma lane2_returns:
  assumes "rel = None \<or> (\<exists>v. rel = Some v \<and> isReleaseObject v)"
  shows "\<exists>printed2 cache'. lane2 lib w cache rel = (printed2, Value cache')"
proof (cases rel)
  case None
  then show ?thesis by (simp add: lane2_def)
next
  case (Some v)
  with assms have r: "isReleaseObject v" by simp
  then obtain tag where t: "member v ''tag_name'' = Some (JString tag)"
    by (auto simp: isReleaseObject_def split: option.splits json.splits)
  from getV3ReleaseMessage_returns [OF r] obtain requests message
    where m: "getV3ReleaseMessage w v = Value (requests, message)" by blast
  show ?thesis using Some t m
    by (simp add: lane2_def split: option.splits)
qed

lemma getReleases_found_iff:
  assumes "releasesResponse w \<noteq> ReleasesNotArray"
    and "releases = (case releasesResponse w of ReleasesArray rs \<Rightarrow> rs | _ \<Rightarrow> [])"
  shows "\<exists>ordered. getReleases w = Value ordered
           \<and> (List.find (isLatestV2 lib) ordered \<noteq> None \<longleftrightarrow> (\<exists>r \<in> set releases. isLatestV2 lib r))"
  using assms by (cases "releasesResponse w") (auto simp add: getReleases_def find_None_iff)

lemma getV3Release_found_iff:
  "getV3Release w \<noteq> None \<longleftrightarrow>
     (\<exists>body. v3ReleaseResponse w = Some body \<and> body \<noteq> JNull
             \<and> member body ''message'' \<noteq> Some (JString ''Not Found''))"
  by (auto simp: getV3Release_def split: option.splits)

lemma no_guard_found_writes:
  assumes "\<not> guardActive lib w (readCache cf)"
    and "getReleases w = Value ordered"
    and "getV3Release w = None \<or> (\<exists>v. getV3Release w = Some v \<and> isReleaseObject v)"
    and "List.find (isLatestV2 lib) ordered \<noteq> None \<or> getV3Release w \<noteq> None"
  shows "\<exists>before c. showNewVersionNotification lib w cf
            = (before @ [WriteCache c],
               (if writeSucceeds w then Some (reparse (cache_json c)) else cf), Returned)
          \<and> lastCheck c = LastCheckString (Date_toISOString lib (now w))
          \<and> v3Release c = getV3Release w"
proof -
  from lane2_returns [OF assms(3)] obtain fx2 cache'
    where l2: "lane2 lib w (readCache cf) (getV3Release w) = (fx2, Value cache')" by blast
  let ?c = "cache' \<lparr> lastCheck := LastCheckString (Date_toISOString lib (now w)),
                      v3Release := getV3Release w \<rparr>"
  let ?before = "RequestReleases # RequestV3Release
                   # lane1 lib w (List.find (isLatestV2 lib) ordered) @ fx2"
  have "showNewVersionNotification lib w cf
            = (?before @ [WriteCache ?c],
               (if writeSucceeds w then Some (reparse (cache_json ?c)) else cf), Returned)"
    using assms(1,2,4) l2 by (auto simp add: notification_unfold writeCache_def)
  moreover have "lastCheck ?c = LastCheckString (Date_toISOString lib (now w))" by simp
  moreover have "v3Release ?c = getV3Release w" by simp
  ultimately show ?thesis by blast
qed

lemma no_guard_nothing_found:
  assumes "\<not> guardActive lib w (readCache cf)"
    and "getReleases w = Value ordered"
    and "List.find (isLatestV2 lib) ordered = None" and "getV3Release w = None"
  shows "showNewVersionNotification lib w cf = ([RequestReleases, RequestV3Release], cf, Returned)"
  using assms by (simp add: notification_unfold)

lemma example_lastCheckTime:
  "lastCheckTime exampleLib (readCache (Some cacheChecked)) = Some 1704067200000"
  by (simp add: lastCheckTime_def readCache_def cacheChecked_def exampleLib_def)

lemma example_capped_lastCheckTime:
  "lastCheckTime exampleLib (readCache (Some cacheCapped)) = Some 1704067200000"
  by (simp add: lastCheckTime_def readCache_def cacheCapped_def exampleLib_def)

text \<open>
  C5, as stated, fails at the boundary: with the last check at midnight of 1 January
  2024 and the clock exactly one day later, the guard does not return and the three
  requests are sent.
\<close>

theorem guard_boundary_counterexample:
  "lastCheckTime exampleLib (readCache (Some cacheChecked)) = Some 1704067200000
   \<and> now worldNextDay - 1704067200000 = oneDay
   \<and> filter isRequest (fst (showNewVersionNotification exampleLib worldNextDay (Some cacheChecked)))
       = [RequestReleases, RequestV3Release,
          RequestAsset (Some (JString ''https://example.org/message.txt''))]"
proof (intro conjI)
  show "lastCheckTime exampleLib (readCache (Some cacheChecked)) = Some 1704067200000"
    by (rule example_lastCheckTime)
  show "now worldNextDay - 1704067200000 = oneDay"
    by (simp add: worldNextDay_def oneDay_def)
  show "filter isRequest (fst (showNewVersionNotification exampleLib worldNextDay (Some cacheChecked)))
       = [RequestReleases, RequestV3Release,
          RequestAsset (Some (JString ''https://example.org/message.txt''))]"
    by code_simp
qed

text \<open>
  C5, amended: when the time since the last check is strictly less than one day the
  invocation returns at once, with no request, no notice and the cache file untouched;
  from one day on, the exact boundary of 24 hours included, the guard is not active
  and the invocation starts with the request for the release list, followed by the
  request for the pinned release whenever the body of the release list is an array
  or the request fails.
\<close>

theorem guard_short_circuits_below_one_day:
  "lastCheckTime lib (readCache cf) = Some t \<Longrightarrow>
     (now w - t < oneDay \<longrightarrow> showNewVersionNotification lib w cf = ([], cf, Returned))
     \<and> (oneDay \<le> now w - t \<longrightarrow>
          (\<exists>rest. fst (showNewVersionNotification lib w cf) = RequestReleases # rest))
     \<and> (oneDay \<le> now w - t \<and> releasesResponse w \<noteq> ReleasesNotArray \<longrightarrow>
          (\<exists>rest. fst (showNewVersionNotification lib w cf)
                    = RequestReleases # RequestV3Release # rest))"
proof (intro conjI impI)
  assume t: "lastCheckTime lib (readCache cf) = Some t"
  {
    assume "now w - t < oneDay"
    then have "guardActive lib w (readCache cf)" using t by (simp add: guardActive_def)
    then show "showNewVersionNotification lib w cf = ([], cf, Returned)" by (rule guard_returns)
  }
  {
    assume "oneDay \<le> now w - t"
    then have "\<not> guardActive lib w (readCache cf)" using t by (simp add: guardActive_def)
    then show "\<exists>rest. fst (showNewVersionNotification lib w cf) = RequestReleases # rest"
      by (rule no_guard_first_request)
  }
  {
    assume a: "oneDay \<le> now w - t \<and> releasesResponse w \<noteq> ReleasesNotArray"
    then have "\<not> guardActive lib w (readCache cf)" using t by (simp add: guardActive_def)
    then show "\<exists>rest. fst (showNewVersionNotification lib w cf)
                    = RequestReleases # RequestV3Release # rest"
      using a by (simp add: no_guard_requests)
  }
qed

theorem guard_short_circuits_example:
  "showNewVersionNotification exampleLib (worldNextDay \<lparr> now := 1704153599999 \<rparr>) (Some cacheChecked)
     = ([], Some cacheChecked, Returned)
   \<and> (\<exists>rest. fst (showNewVersionNotification exampleLib worldNextDay (Some cacheChecked))
                = RequestReleases # RequestV3Release # rest)
   \<and> (\<exists>rest. fst (showNewVersionNotification exampleLib
                     (worldNextDay \<lparr> releasesResponse := ReleasesNotArray \<rparr>) (Some cacheChecked))
                = RequestReleases # rest)"
proof -
  have below: "now (worldNextDay \<lparr> now := 1704153599999 \<rparr>) - 1704067200000 < oneDay"
    by (simp add: oneDay_def)
  have at: "oneDay \<le> now worldNextDay - 1704067200000
            \<and> releasesResponse worldNextDay \<noteq> ReleasesNotArray"
    by (simp add: worldNextDay_def oneDay_def)
  have at2: "oneDay \<le> now (worldNextDay \<lparr> releasesResponse := ReleasesNotArray \<rparr>) - 1704067200000"
    by (simp add: worldNextDay_def oneDay_def)
  note A = guard_short_circuits_below_one_day [OF example_lastCheckTime,
        of "worldNextDay \<lparr> now := 1704153599999 \<rparr>", THEN conjunct1, THEN mp, OF below]
  note B = guard_short_circuits_below_one_day [OF example_lastCheckTime, of worldNextDay,
        THEN conjunct2, THEN conjunct2, THEN mp, OF at]
  note C = guard_short_circuits_below_one_day [OF example_lastCheckTime,
        of "worldNextDay \<lparr> releasesResponse := ReleasesNotArray \<rparr>",
        THEN conjunct2, THEN conjunct1, THEN mp, OF at2]
  from A B C show ?thesis by (intro conjI)
qed

text \<open>
  Two answers on which the invocation throws before \<open>writeCache\<close>: a release list
  whose body is not an array, and a pinned release whose body is the error object of
  a rate limit, which \<open>getV3Release\<close> returns as the release.
\<close>

lemma answer_not_an_array_throws_example:
  "showNewVersionNotification exampleLib (worldNextDay \<lparr> releasesResponse := ReleasesNotArray \<rparr>)
       (Some cacheChecked)
     = ([RequestReleases], Some cacheChecked, Threw)"
  by code_simp

lemma rate_limited_answer_throws_example:
  "showNewVersionNotification exampleLib (worldNextDay \<lparr> v3ReleaseResponse := Some rateLimitBody \<rparr>)
       (Some cacheChecked)
     = ([RequestReleases, RequestV3Release, ConsoleLog (NewVersionNotice ''2.22.0'' ''2.26.0'')],
        Some cacheChecked, Threw)"
  by code_simp

text \<open>
  C3, as stated, fails when neither lookup finds a release: a day after the last
  check, with both requests failing, the invocation returns after the two requests,
  \<open>writeCache\<close> is not called and the file keeps the old \<open>lastCheck\<close>.
\<close>

theorem cache_not_rewritten_counterexample:
  "\<not> guardActive exampleLib worldOffline (readCache (Some cacheChecked))
   \<and> showNewVersionNotification exampleLib worldOffline (Some cacheChecked)
       = ([RequestReleases, RequestV3Release], Some cacheChecked, Returned)
   \<and> filter isWriteCache (fst (showNewVersionNotification exampleLib worldOffline (Some cacheChecked))) = []"
proof -
  have g: "\<not> guardActive exampleLib worldOffline (readCache (Some cacheChecked))"
    by (simp add: guardActive_def example_lastCheckTime worldOffline_def oneDay_def)
  have r: "getReleases worldOffline = Value []"
    by (simp add: getReleases_def worldOffline_def)
  have s: "showNewVersionNotification exampleLib worldOffline (Some cacheChecked)
       = ([RequestReleases, RequestV3Release], Some cacheChecked, Returned)"
    by (rule no_guard_nothing_found [OF g r])
       (simp_all add: getV3Release_def worldOffline_def)
  show ?thesis using g s by (simp add: isWriteCache_def)
qed

text \<open>
  C3, amended: let the guard not return and let the requests be answered as the API
  documents (the release list an array, the pinned release a release object or
  \<open>Not Found\<close>) or fail. When the release list holds a stable 2.x release or the
  pinned release is found, the invocation ends with the call of \<open>writeCache\<close> on a
  cache whose \<open>lastCheck\<close> is the current time, whether or not a notice was printed,
  and the file holds that cache unless the write fails; when neither release is
  found, the invocation returns after the two requests and leaves the file as it was.
\<close>

theorem cache_rewritten_when_release_found:
  assumes "\<not> guardActive lib w (readCache cf)"
    and "answersWellFormed w"
    and "releases = (case releasesResponse w of ReleasesArray rs \<Rightarrow> rs | _ \<Rightarrow> [])"
    and "pinnedFound \<longleftrightarrow>
           (\<exists>body. v3ReleaseResponse w = Some body \<and> body \<noteq> JNull
                   \<and> member body ''message'' \<noteq> Some (JString ''Not Found''))"
  shows "((\<exists>r \<in> set releases. isLatestV2 lib r) \<or> pinnedFound \<longrightarrow>
            (\<exists>before c.
                showNewVersionNotification lib w cf
                  = (before @ [WriteCache c],
                     (if writeSucceeds w then Some (reparse (cache_json c)) else cf), Returned)
                \<and> lastCheck c = LastCheckString (Date_toISOString lib (now w))
                \<and> lastCheck (readCache (Some (reparse (cache_json c))))
                    = LastCheckString (Date_toISOString lib (now w))))
       \<and> (\<not> (\<exists>r \<in> set releases. isLatestV2 lib r) \<and> \<not> pinnedFound \<longrightarrow>
            showNewVersionNotification lib w cf
              = ([RequestReleases, RequestV3Release], cf, Returned))"
proof -
  from assms(2) have arr: "releasesResponse w \<noteq> ReleasesNotArray"
    by (simp add: answersWellFormed_def)
  from getReleases_found_iff [OF arr assms(3), of lib] obtain ordered
    where s: "getReleases w = Value ordered"
      and f: "List.find (isLatestV2 lib) ordered \<noteq> None \<longleftrightarrow> (\<exists>r \<in> set releases. isLatestV2 lib r)"
    by blast
  have p: "getV3Release w \<noteq> None \<longleftrightarrow> pinnedFound"
    unfolding assms(4) by (rule getV3Release_found_iff)
  note wf = getV3Release_wellFormed [OF assms(2)]
  have A: "(\<exists>r \<in> set releases. isLatestV2 lib r) \<or> pinnedFound \<longrightarrow>
            (\<exists>before c.
                showNewVersionNotification lib w cf
                  = (before @ [WriteCache c],
                     (if writeSucceeds w then Some (reparse (cache_json c)) else cf), Returned)
                \<and> lastCheck c = LastCheckString (Date_toISOString lib (now w))
                \<and> lastCheck (readCache (Some (reparse (cache_json c))))
                    = LastCheckString (Date_toISOString lib (now w)))"
  proof
    assume "(\<exists>r \<in> set releases. isLatestV2 lib r) \<or> pinnedFound"
    then have "List.find (isLatestV2 lib) ordered \<noteq> None \<or> getV3Release w \<noteq> None"
      using f p by simp
    from no_guard_found_writes [OF assms(1) s wf this] obtain before c where
      1: "showNewVersionNotification lib w cf
         = (before @ [WriteCache c],
            (if writeSucceeds w then Some (reparse (cache_json c)) else cf), Returned)"
      and 2: "lastCheck c = LastCheckString (Date_toISOString lib (now w))"
      by blast
    have 3: "lastCheck (readCache (Some (reparse (cache_json c))))
                    = LastCheckString (Date_toISOString lib (now w))"
      using 2 by (simp add: readCache_written)
    from 1 2 3 show "\<exists>before c.
                showNewVersionNotification lib w cf
                  = (before @ [WriteCache c],
                     (if writeSucceeds w then Some (reparse (cache_json c)) else cf), Returned)
                \<and> lastCheck c = LastCheckString (Date_toISOString lib (now w))
                \<and> lastCheck (readCache (Some (reparse (cache_json c))))
                    = LastCheckString (Date_toISOString lib (now w))"
      by (intro exI conjI)
  qed
  have B: "\<not> (\<exists>r \<in> set releases. isLatestV2 lib r) \<and> \<not> pinnedFound \<longrightarrow>
            showNewVersionNotification lib w cf
              = ([RequestReleases, RequestV3Release], cf, Returned)"
  proof
    assume "\<not> (\<exists>r \<in> set releases. isLatestV2 lib r) \<and> \<not> pinnedFound"
    then have "List.find (isLatestV2 lib) ordered = None" and "getV3Release w = None"
      using f p by simp_all
    then show "showNewVersionNotification lib w cf
              = ([RequestReleases, RequestV3Release], cf, Returned)"
      by (rule no_guard_nothing_found [OF assms(1) s])
  qed
  from A B show ?thesis ..
qed

theorem cache_rewritten_example:
  "(\<exists>before c.
      showNewVersionNotification exampleLib (worldNextDay \<lparr> hardhatVersion := ''2.26.0'' \<rparr>) (Some cacheCapped)
        = (before @ [WriteCache c], Some (reparse (cache_json c)), Returned)
      \<and> lastCheck c = LastCheckString ''2024-01-02T00:00:00.000Z''
      \<and> lastCheck (readCache (Some (reparse (cache_json c))))
           = LastCheckString ''2024-01-02T00:00:00.000Z'')
   \<and> filter (\<lambda>e. isLane1Notice e \<or> isLane2Notice e)
        (fst (showNewVersionNotification exampleLib (worldNextDay \<lparr> hardhatVersion := ''2.26.0'' \<rparr>)
               (Some cacheCapped))) = []
   \<and> showNewVersionNotification exampleLib worldOffline (Some cacheCapped)
        = ([RequestReleases, RequestV3Release], Some cacheCapped, Returned)"
proof -
  let ?w = "worldNextDay \<lparr> hardhatVersion := ''2.26.0'' \<rparr>"
  have g: "\<not> guardActive exampleLib ?w (readCache (Some cacheCapped))"
    by (simp add: guardActive_def example_capped_lastCheckTime worldNextDay_def oneDay_def)
  have wf: "answersWellFormed ?w"
    by (simp add: answersWellFormed_def worldNextDay_def exampleV3Release_def
        isReleaseObject_def member_def)
  have rs: "[exampleV2Release, exampleV3Listed]
              = (case releasesResponse ?w of ReleasesArray rs \<Rightarrow> rs | _ \<Rightarrow> [])"
    by (simp add: worldNextDay_def)
  have pf: "True \<longleftrightarrow>
           (\<exists>body. v3ReleaseResponse ?w = Some body \<and> body \<noteq> JNull
                   \<and> member body ''message'' \<noteq> Some (JString ''Not Found''))"
    by (simp add: worldNextDay_def exampleV3Release_def member_def)
  have iso: "Date_toISOString exampleLib (now ?w) = ''2024-01-02T00:00:00.000Z''"
    by (simp add: exampleLib_def worldNextDay_def)
  have ws: "writeSucceeds ?w" by (simp add: worldNextDay_def)
  from cache_rewritten_when_release_found [OF g wf rs pf, THEN conjunct1]
  have A: "\<exists>before c.
      showNewVersionNotification exampleLib ?w (Some cacheCapped)
        = (before @ [WriteCache c], Some (reparse (cache_json c)), Returned)
      \<and> lastCheck c = LastCheckString ''2024-01-02T00:00:00.000Z''
      \<and> lastCheck (readCache (Some (reparse (cache_json c))))
           = LastCheckString ''2024-01-02T00:00:00.000Z''"
    unfolding iso using ws by simp
  have B: "filter (\<lambda>e. isLane1Notice e \<or> isLane2Notice e)
        (fst (showNewVersionNotification exampleLib ?w (Some cacheCapped))) = []"
    by code_simp
  have g2: "\<not> guardActive exampleLib worldOffline (readCache (Some cacheCapped))"
    by (simp add: guardActive_def example_capped_lastCheckTime worldOffline_def oneDay_def)
  have wf2: "answersWellFormed worldOffline"
    by (simp add: answersWellFormed_def worldOffline_def)
  have rs2: "[] = (case releasesResponse worldOffline of ReleasesArray rs \<Rightarrow> rs | _ \<Rightarrow> [])"
    by (simp add: worldOffline_def)
  have pf2: "False \<longleftrightarrow>
           (\<exists>body. v3ReleaseResponse worldOffline = Some body \<and> body \<noteq> JNull
                   \<and> member body ''message'' \<noteq> Some (JString ''Not Found''))"
    by (simp add: worldOffline_def)
  from cache_rewritten_when_release_found [OF g2 wf2 rs2 pf2, THEN conjunct2]
  have C: "showNewVersionNotification exampleLib worldOffline (Some cacheCapped)
        = ([RequestReleases, RequestV3Release], Some cacheCapped, Returned)"
    by simp
  from A B C show ?thesis by (intro conjI)
qed

text \<open>
  C4: the cache file holds the descriptor of the pinned release, written by an
  earlier invocation, and the guard does not return. \<open>readCache\<close> does not read the
  descriptor back, so the cache in memory has none and the pinned release is
  requested again.
\<close>

theorem cached_release_is_fetched_again:
  "(\<exists>ms. cacheWithRelease = JObject ms
          \<and> map_of ms ''v3Release'' = Some exampleV3Release)
   \<and> v3Release (readCache (Some cacheWithRelease)) = None
   \<and> filter isRequest (fst (showNewVersionNotification exampleLib worldNextDay (Some cacheWithRelease)))
       = [RequestReleases, RequestV3Release,
          RequestAsset (Some (JString ''https://example.org/message.txt''))]"
proof (intro conjI)
  show "\<exists>ms. cacheWithRelease = JObject ms
          \<and> map_of ms ''v3Release'' = Some exampleV3Release"
    by (simp add: cacheWithRelease_def)
  show "v3Release (readCache (Some cacheWithRelease)) = None"
    by (rule readCache_no_release)
  show "filter isRequest (fst (showNewVersionNotification exampleLib worldNextDay (Some cacheWithRelease)))
       = [RequestReleases, RequestV3Release,
          RequestAsset (Some (JString ''https://example.org/message.txt''))]"
    by code_simp
qed


section \<open>The version notifier: sequences of invocations\<close>

lemma lane2_capped:
  assumes "v3TimesShown cache = Finite r" and "5 \<le> r"
  shows "lane2 lib w cache rel = ([], Value cache) \<or> lane2 lib w cache rel = ([], TypeError)"
proof (cases rel)
  case None
  then show ?thesis by (simp add: lane2_def)
next
  case (Some v)
  have nl: "\<not> number_less (v3TimesShown cache) V3_RELEASE_MAX_TIMES_SHOWN"
    using assms by (simp add: number_less_def V3_RELEASE_MAX_TIMES_SHOWN_def)
  show ?thesis
  proof (cases "member v ''tag_name''")
    case None
    then show ?thesis using Some by (simp add: lane2_def)
  next
    case (Some t)
    then show ?thesis using \<open>rel = Some v\<close> nl
      by (cases t) (simp_all add: lane2_def split: option.splits)
  qed
qed

lemma lane1_only_lane1: "filter isLane1Notice (lane1 lib w r) = lane1 lib w r"
  by (simp add: lane1_def isLane1Notice_def split: option.splits)

lemma lane1_no_lane2: "filter isLane2Notice (lane1 lib w r) = []"
  by (simp add: lane1_def isLane2Notice_def split: option.splits)

lemma lane1_None: "lane1 lib w None = []"
  by (simp add: lane1_def)

lemma getV3ReleaseMessage_requests:
  assumes "getV3ReleaseMessage w v = Value (requests, message)"
  shows "requests = [] \<or> (\<exists>u. requests = [RequestAsset u])"
proof (cases "member v ''assets''")
  case None
  then show ?thesis using assms by (simp add: getV3ReleaseMessage_def)
next
  case (Some a)
  show ?thesis
  proof (cases a)
    case (JArray as)
    show ?thesis
    proof (cases "find_asset as")
      case TypeError
      then show ?thesis using assms Some JArray by (simp add: getV3ReleaseMessage_def)
    next
      case (Value x)
      then show ?thesis using assms Some JArray
        by (cases x) (auto simp add: getV3ReleaseMessage_def Let_def)
    qed
  qed (use assms Some in \<open>simp_all add: getV3ReleaseMessage_def\<close>)
qed

lemma lane2_no_lane1:
  "filter isLane1Notice (fst (lane2 lib w cache rel)) = []"
proof (cases rel)
  case None
  then show ?thesis by (simp add: lane2_def)
next
  case rel: (Some v)
  show ?thesis
  proof (cases "member v ''tag_name''")
    case None
    then show ?thesis using rel by (simp add: lane2_def)
  next
    case (Some t)
    show ?thesis
    proof (cases t)
      case (JString tag)
      note tag = Some [unfolded JString]
      show ?thesis
      proof (cases "valid lib (element (split CHR ''@'' tag) 1)")
        case None
        then show ?thesis using rel tag by (simp add: lane2_def)
      next
        case version: (Some releaseVersion)
        show ?thesis
        proof (cases "number_less (v3TimesShown cache) V3_RELEASE_MAX_TIMES_SHOWN")
          case False
          then show ?thesis using rel tag version by (simp add: lane2_def)
        next
          case True
          show ?thesis
          proof (cases "v3ReleaseMessage cache")
            case (Some m)
            then show ?thesis using rel tag version True
              by (simp add: lane2_def isLane1Notice_def)
          next
            case None
            show ?thesis
            proof (cases "getV3ReleaseMessage w v")
              case TypeError
              then show ?thesis using rel tag version True None by (simp add: lane2_def)
            next
              case (Value p)
              obtain requests message where p: "p = (requests, message)" by (cases p)
              from getV3ReleaseMessage_requests [OF Value [unfolded p]]
              have "filter isLane1Notice requests = []"
                by (auto simp: isLane1Notice_def)
              then show ?thesis using rel tag version True None Value p
                by (cases message) (simp_all add: lane2_def isLane1Notice_def)
            qed
          qed
        qed
      qed
    qed (use rel Some in \<open>simp_all add: lane2_def\<close>)
  qed
qed

lemma lane1_notices:
  "filter isLane1Notice (fst (showNewVersionNotification lib w cf)) =
     (if guardActive lib w (readCache cf) then []
      else (case getReleases w of
              TypeError \<Rightarrow> []
            | Value releases \<Rightarrow> lane1 lib w (List.find (isLatestV2 lib) releases)))"
proof (cases "guardActive lib w (readCache cf)")
  case True
  then show ?thesis by (simp add: guard_returns)
next
  case guard: False
  show ?thesis
  proof (cases "getReleases w")
    case TypeError
    then show ?thesis using guard by (simp add: notification_unfold isLane1Notice_def)
  next
    case (Value releases)
    show ?thesis
    proof (cases "List.find (isLatestV2 lib) releases = None \<and> getV3Release w = None")
      case True
      then show ?thesis using guard Value
        by (simp add: notification_unfold isLane1Notice_def lane1_None)
    next
      case False
      obtain fx r where l2: "lane2 lib w (readCache cf) (getV3Release w) = (fx, r)"
        by (cases "lane2 lib w (readCache cf) (getV3Release w)")
      have q: "filter isLane1Notice fx = []"
        using lane2_no_lane1 [of lib w "readCache cf" "getV3Release w"] l2 by simp
      have "showNewVersionNotification lib w cf =
              (case r of
                 TypeError \<Rightarrow>
                   (RequestReleases # RequestV3Release
                      # lane1 lib w (List.find (isLatestV2 lib) releases) @ fx, cf, Threw)
               | Value cache' \<Rightarrow>
                   (RequestReleases # RequestV3Release
                      # lane1 lib w (List.find (isLatestV2 lib) releases) @ fx
                      @ [WriteCache (cache' \<lparr> lastCheck := LastCheckString (Date_toISOString lib (now w)),
                                               v3Release := getV3Release w \<rparr>)],
                    writeCache w (cache' \<lparr> lastCheck := LastCheckString (Date_toISOString lib (now w)),
                                           v3Release := getV3Release w \<rparr>) cf,
                    Returned))"
        using guard Value False l2 by (cases r) (simp_all add: notification_unfold)
      then show ?thesis using guard Value q
        by (cases r) (simp_all add: isLane1Notice_def lane1_only_lane1)
    qed
  qed
qed

lemma capped_invocation:
  assumes "v3TimesShown (readCache cf) = Finite r" and "5 \<le> r"
  shows "filter isLane2Notice (fst (showNewVersionNotification lib w cf)) = []"
    and "v3TimesShown (readCache (fst (snd (showNewVersionNotification lib w cf)))) = Finite r"
proof -
  note l2 = lane2_capped [OF assms, of lib w "getV3Release w"]
  have "filter isLane2Notice (fst (showNewVersionNotification lib w cf)) = []
        \<and> v3TimesShown (readCache (fst (snd (showNewVersionNotification lib w cf)))) = Finite r"
  proof (cases "guardActive lib w (readCache cf)")
    case True
    then show ?thesis using assms(1) by (simp add: guard_returns)
  next
    case guard: False
    show ?thesis
    proof (cases "getReleases w")
      case TypeError
      then show ?thesis using guard assms(1) by (simp add: notification_unfold isLane2Notice_def)
    next
      case (Value releases)
      show ?thesis
      proof (cases "List.find (isLatestV2 lib) releases = None \<and> getV3Release w = None")
        case True
        then show ?thesis using guard Value assms(1)
          by (simp add: notification_unfold isLane2Notice_def)
      next
        case False
        from l2 show ?thesis
        proof
          assume "lane2 lib w (readCache cf) (getV3Release w) = ([], Value (readCache cf))"
          then show ?thesis using guard Value False assms(1)
            by (simp add: notification_unfold isLane2Notice_def lane1_no_lane2 writeCache_def
                readCache_written)
        next
          assume "lane2 lib w (readCache cf) (getV3Release w) = ([], TypeError)"
          then show ?thesis using guard Value False assms(1)
            by (simp add: notification_unfold isLane2Notice_def lane1_no_lane2)
        qed
      qed
    qed
  qed
  then show "filter isLane2Notice (fst (showNewVersionNotification lib w cf)) = []"
    and "v3TimesShown (readCache (fst (snd (showNewVersionNotification lib w cf)))) = Finite r"
    by simp_all
qed

lemma guard_same:
  "lastCheck (readCache cf2) = lastCheck (readCache cf) \<Longrightarrow>
     guardActive lib w (readCache cf2) = guardActive lib w (readCache cf)"
  by (simp add: guardActive_def lastCheckTime_def)

lemma lane1_same:
  assumes "lastCheck (readCache cf2) = lastCheck (readCache cf)"
  shows "filter isLane1Notice (fst (showNewVersionNotification lib w cf2))
       = filter isLane1Notice (fst (showNewVersionNotification lib w cf))"
  unfolding lane1_notices guard_same [OF assms, of lib w] ..

lemma lastCheck_after:
  assumes "lastCheck (readCache cf2) = lastCheck (readCache cf)" and "answersWellFormed w"
  shows "lastCheck (readCache (fst (snd (showNewVersionNotification lib w cf2))))
       = lastCheck (readCache (fst (snd (showNewVersionNotification lib w cf))))"
proof -
  note g = guard_same [OF assms(1), of lib w]
  from assms(2) have "releasesResponse w \<noteq> ReleasesNotArray" by (simp add: answersWellFormed_def)
  from getReleases_array [OF this] obtain releases where r: "getReleases w = Value releases" ..
  note wf = getV3Release_wellFormed [OF assms(2)]
  show ?thesis
  proof (cases "guardActive lib w (readCache cf)")
    case True
    then show ?thesis using g assms(1) by (simp add: guard_returns)
  next
    case False
    show ?thesis
    proof (cases "List.find (isLatestV2 lib) releases = None \<and> getV3Release w = None")
      case True
      then have n1: "List.find (isLatestV2 lib) releases = None" and n2: "getV3Release w = None"
        by simp_all
      from g False have g2: "\<not> guardActive lib w (readCache cf2)" by simp
      show ?thesis
        unfolding no_guard_nothing_found [OF False r n1 n2] no_guard_nothing_found [OF g2 r n1 n2]
        using assms(1) by simp
    next
      case nf: False
      then have f: "List.find (isLatestV2 lib) releases \<noteq> None \<or> getV3Release w \<noteq> None"
        by auto
      from no_guard_found_writes [OF False r wf f] obtain b c where
        1: "showNewVersionNotification lib w cf
              = (b @ [WriteCache c],
                 (if writeSucceeds w then Some (reparse (cache_json c)) else cf), Returned)"
        and c: "lastCheck c = LastCheckString (Date_toISOString lib (now w))" by blast
      from g False have "\<not> guardActive lib w (readCache cf2)" by simp
      from no_guard_found_writes [OF this r wf f] obtain b2 c2 where
        2: "showNewVersionNotification lib w cf2
              = (b2 @ [WriteCache c2],
                 (if writeSucceeds w then Some (reparse (cache_json c2)) else cf2), Returned)"
        and c2: "lastCheck c2 = LastCheckString (Date_toISOString lib (now w))" by blast
      show ?thesis using 1 2 c c2 assms(1) by (simp add: readCache_written)
    qed
  qed
qed

lemma capped_sequence_silent:
  "v3TimesShown (readCache cf) = Finite r \<Longrightarrow> 5 \<le> r \<Longrightarrow>
     \<forall>effects \<in> set (invocations lib ws cf). \<forall>e \<in> set effects. \<not> isLane2Notice e"
proof (induction ws arbitrary: cf)
  case Nil
  then show ?case by simp
next
  case (Cons w ws)
  obtain fx f' c where s: "showNewVersionNotification lib w cf = (fx, f', c)"
    by (cases "showNewVersionNotification lib w cf") auto
  have quiet: "filter isLane2Notice fx = []"
    using capped_invocation(1) [OF Cons.prems, of lib w] s by simp
  have cap': "v3TimesShown (readCache f') = Finite r"
    using capped_invocation(2) [OF Cons.prems, of lib w] s by simp
  have q: "\<forall>e \<in> set fx. \<not> isLane2Notice e"
    using quiet by (simp add: filter_empty_conv)
  show ?case using s q Cons.IH [OF cap' Cons.prems(2)] by simp
qed

lemma lane1_sequence_same:
  "lastCheck (readCache cf2) = lastCheck (readCache cf) \<Longrightarrow> \<forall>w \<in> set ws. answersWellFormed w \<Longrightarrow>
     map (filter isLane1Notice) (invocations lib ws cf2)
       = map (filter isLane1Notice) (invocations lib ws cf)"
proof (induction ws arbitrary: cf cf2)
  case Nil
  then show ?case by simp
next
  case (Cons w ws)
  obtain fx f' c where s1: "showNewVersionNotification lib w cf = (fx, f', c)"
    by (cases "showNewVersionNotification lib w cf") auto
  obtain fx2 f2' c2 where s2: "showNewVersionNotification lib w cf2 = (fx2, f2', c2)"
    by (cases "showNewVersionNotification lib w cf2") auto
  from Cons.prems(2) have wf: "answersWellFormed w" and rest: "\<forall>w \<in> set ws. answersWellFormed w"
    by simp_all
  have lc': "lastCheck (readCache f2') = lastCheck (readCache f')"
    using lastCheck_after [OF Cons.prems(1) wf, of lib] s1 s2 by simp
  have same: "filter isLane1Notice fx2 = filter isLane1Notice fx"
    using lane1_same [OF Cons.prems(1), of lib w] s1 s2 by simp
  show ?case using s1 s2 same Cons.IH [OF lc' rest] by simp
qed

text \<open>
  C6, as stated, fails for a count that is not finite: a cache file whose count is a
  literal beyond the range of the doubles holds \<open>Infinity\<close>, which is not below 5, so
  the first invocation prints no notice of the pinned release; it writes the count
  back as \<open>null\<close>, the next invocation reads 0, and prints the notice.
\<close>

theorem infinite_count_counterexample:
  "cacheInfinite = JObject [(''lastCheck'', JString ''2024-01-01T00:00:00.000Z''),
                           (''v3TimesShown'', JNumber PlusInfinity)]
   \<and> v3TimesShown (readCache (Some cacheInfinite)) = PlusInfinity
   \<and> \<not> number_less PlusInfinity V3_RELEASE_MAX_TIMES_SHOWN
   \<and> fst (snd (showNewVersionNotification exampleLib worldNextDay (Some cacheInfinite)))
       = Some (JObject [(''lastCheck'', JString ''2024-01-02T00:00:00.000Z''),
                        (''v3TimesShown'', JNull),
                        (''v3Release'', exampleV3Release)])
   \<and> map (filter isLane2Notice)
        (invocations exampleLib [worldNextDay, worldNextDay \<lparr> now := 1704326400000 \<rparr>]
           (Some cacheInfinite))
       = [[], [ConsoleLog (V3ReleaseNotice ''Hardhat 3 is out'')]]"
proof (intro conjI)
  show "cacheInfinite = JObject [(''lastCheck'', JString ''2024-01-01T00:00:00.000Z''),
                           (''v3TimesShown'', JNumber PlusInfinity)]"
    by (simp add: cacheInfinite_def)
  show "v3TimesShown (readCache (Some cacheInfinite)) = PlusInfinity"
    by (simp add: cacheInfinite_def readCache_def)
  show "\<not> number_less PlusInfinity V3_RELEASE_MAX_TIMES_SHOWN"
    by (simp add: number_less_def)
  show "fst (snd (showNewVersionNotification exampleLib worldNextDay (Some cacheInfinite)))
       = Some (JObject [(''lastCheck'', JString ''2024-01-02T00:00:00.000Z''),
                        (''v3TimesShown'', JNull),
                        (''v3Release'', exampleV3Release)])"
    by code_simp
  show "map (filter isLane2Notice)
        (invocations exampleLib [worldNextDay, worldNextDay \<lparr> now := 1704326400000 \<rparr>]
           (Some cacheInfinite))
       = [[], [ConsoleLog (V3ReleaseNotice ''Hardhat 3 is out'')]]"
    by code_simp
qed

text \<open>
  Over several invocations the count can reach the lane-1 notices through an exception:
  on a pinned release without \<open>assets\<close>, a count below 5 makes lane 2 throw before
  \<open>writeCache\<close>, the guard stays open and the lane-1 notice is printed again an hour
  later; with a count of 5 the cache is written and the guard returns.
\<close>

lemma count_changes_later_notices_example:
  "map (filter isLane1Notice)
     (invocations exampleLib
        [worldNextDay \<lparr> v3ReleaseResponse := Some (JObject [(''tag_name'', JString ''hardhat@3.0.0'')]) \<rparr>,
         worldNextDay \<lparr> now := 1704157200000 \<rparr>]
        (Some cacheChecked))
     = [[ConsoleLog (NewVersionNotice ''2.22.0'' ''2.26.0'')],
        [ConsoleLog (NewVersionNotice ''2.22.0'' ''2.26.0'')]]
   \<and> map (filter isLane1Notice)
     (invocations exampleLib
        [worldNextDay \<lparr> v3ReleaseResponse := Some (JObject [(''tag_name'', JString ''hardhat@3.0.0'')]) \<rparr>,
         worldNextDay \<lparr> now := 1704157200000 \<rparr>]
        (Some cacheCapped))
     = [[ConsoleLog (NewVersionNotice ''2.22.0'' ''2.26.0'')], []]"
  by (rule conjI; code_simp)

text \<open>
  C6, amended: let the cache file hold a count \<open>v3TimesShown\<close> that is a finite number,
  5 or more. Then, however many invocations follow and whatever the clock and the
  answers of the requests are at each, none prints the notice of the pinned release.
  The lane-1 notice of an invocation does not depend on the count: started on any
  other cache file with the same \<open>lastCheck\<close>, the invocation prints the same lane-1
  notice, and so does every invocation of a sequence whose requests are answered as
  the API documents or fail.
\<close>

theorem capped_release_notice_stays_silent:
  assumes "cf = Some (JObject ms)"
    and "map_of ms ''v3TimesShown'' = Some (JNumber (Finite r))"
    and "5 \<le> r"
    and "lastCheck (readCache cf2) = lastCheck (readCache cf)"
  shows "(\<forall>effects \<in> set (invocations lib ws cf). \<forall>e \<in> set effects. \<not> isLane2Notice e)
       \<and> (\<forall>w. filter isLane1Notice (fst (showNewVersionNotification lib w cf2))
                = filter isLane1Notice (fst (showNewVersionNotification lib w cf)))
       \<and> ((\<forall>w \<in> set ws. answersWellFormed w) \<longrightarrow>
            map (filter isLane1Notice) (invocations lib ws cf2)
              = map (filter isLane1Notice) (invocations lib ws cf))"
proof -
  have count: "v3TimesShown (readCache cf) = Finite r"
    using assms(1,2) by (simp add: readCache_def)
  have A: "\<forall>effects \<in> set (invocations lib ws cf). \<forall>e \<in> set effects. \<not> isLane2Notice e"
    using count assms(3) by (rule capped_sequence_silent)
  have B: "\<forall>w. filter isLane1Notice (fst (showNewVersionNotification lib w cf2))
                = filter isLane1Notice (fst (showNewVersionNotification lib w cf))"
    by (rule allI) (rule lane1_same [OF assms(4)])
  have C: "(\<forall>w \<in> set ws. answersWellFormed w) \<longrightarrow>
            map (filter isLane1Notice) (invocations lib ws cf2)
              = map (filter isLane1Notice) (invocations lib ws cf)"
    by (rule impI) (rule lane1_sequence_same [OF assms(4)])
  from A B C show ?thesis by (intro conjI)
qed

theorem capped_release_notice_example:
  "filter isLane2Notice
        (concat (invocations exampleLib [worldNextDay, worldNextDay \<lparr> now := 1704326400000 \<rparr>]
                   (Some cacheCapped))) = []
   \<and> filter isLane1Notice (fst (showNewVersionNotification exampleLib worldNextDay (Some cacheChecked)))
     = filter isLane1Notice (fst (showNewVersionNotification exampleLib worldNextDay (Some cacheCapped)))
   \<and> map (filter isLane1Notice)
        (invocations exampleLib [worldNextDay, worldNextDay \<lparr> now := 1704326400000 \<rparr>]
           (Some cacheChecked))
     = map (filter isLane1Notice)
        (invocations exampleLib [worldNextDay, worldNextDay \<lparr> now := 1704326400000 \<rparr>]
           (Some cacheCapped))
   \<and> map (filter isLane1Notice)
        (invocations exampleLib [worldNextDay, worldNextDay \<lparr> now := 1704326400000 \<rparr>]
           (Some cacheCapped))
     = [[ConsoleLog (NewVersionNotice ''2.22.0'' ''2.26.0'')],
        [ConsoleLog (NewVersionNotice ''2.22.0'' ''2.26.0'')]]"
proof -
  let ?ws = "[worldNextDay, worldNextDay \<lparr> now := 1704326400000 \<rparr>]"
  have stored: "Some cacheCapped
                = Some (JObject [(''lastCheck'', JString ''2024-01-01T00:00:00.000Z''),
                                 (''v3TimesShown'', JNumber (Finite 5))])"
    by (simp add: cacheCapped_def)
  have count: "map_of [(''lastCheck'', JString ''2024-01-01T00:00:00.000Z''),
                       (''v3TimesShown'', JNumber (Finite 5))] ''v3TimesShown''
                 = Some (JNumber (Finite 5))"
    by simp
  have five: "(5::rat) \<le> 5" by simp
  have same: "lastCheck (readCache (Some cacheChecked)) = lastCheck (readCache (Some cacheCapped))"
    by (simp add: readCache_def cacheCapped_def cacheChecked_def)
  have wf: "\<forall>w \<in> set ?ws. answersWellFormed w"
    by (simp add: answersWellFormed_def worldNextDay_def exampleV3Release_def
        isReleaseObject_def member_def)
  note run = capped_release_notice_stays_silent [OF stored count five same, of exampleLib ?ws]
  from run [THEN conjunct1]
  have "\<forall>e \<in> set (concat (invocations exampleLib ?ws (Some cacheCapped))). \<not> isLane2Notice e"
    by auto
  then have quiet: "filter isLane2Notice (concat (invocations exampleLib ?ws (Some cacheCapped))) = []"
    by (simp add: filter_empty_conv)
  note one = run [THEN conjunct2, THEN conjunct1, THEN spec, of worldNextDay]
  note seq = run [THEN conjunct2, THEN conjunct2, THEN mp, OF wf]
  have shown: "map (filter isLane1Notice) (invocations exampleLib ?ws (Some cacheCapped))
     = [[ConsoleLog (NewVersionNotice ''2.22.0'' ''2.26.0'')],
        [ConsoleLog (NewVersionNotice ''2.22.0'' ''2.26.0'')]]"
    by code_simp
  from quiet one seq shown show ?thesis by (intro conjI)
qed


end
